theory Spec2Isabelle
  imports Complex_Main
begin

section \<open>The formant synthesiser of speechWaveGenerator.cpp\<close>

text \<open>
  A shallow embedding of \<^verbatim>\<open>src/speechWaveGenerator.cpp\<close>. Every class is a record of
  its fields, every method a function that takes the object and returns the result
  together with the updated object. A \<^verbatim>\<open>double\<close> is modelled as a \<^typ>\<open>real\<close>: the
  arithmetic is exact, there is no rounding, no infinity and no NaN. An \<^verbatim>\<open>int\<close> is an
  \<^typ>\<open>int\<close>; the only integer arithmetic of the file is the loop counter of
  \<^verbatim>\<open>generate\<close>, which counts up from 0, stays below \<^verbatim>\<open>sampleCount\<close> and so never
  wraps: it is a natural number, and a negative \<^verbatim>\<open>sampleCount\<close> means no pass at all.
\<close>

subsection \<open>The C library: conversion to an integer, fmod, rand\<close>

text \<open>
  The conversion of a floating value to an integer type drops the fraction (rounds
  toward zero). \<^verbatim>\<open>fmod(x, y)\<close> is \<^verbatim>\<open>x - n*y\<close> for the quotient \<^verbatim>\<open>x/y\<close> with its fraction
  dropped, so the result has the sign of \<^verbatim>\<open>x\<close>.
\<close>

definition trunc :: "real \<Rightarrow> int" where
  "trunc x = (if 0 \<le> x then \<lfloor>x\<rfloor> else \<lceil>x\<rceil>)"

definition fmod :: "real \<Rightarrow> real \<Rightarrow> real" where
  "fmod x y = x - real_of_int (trunc (x / y)) * y"

text \<open>
  \<^verbatim>\<open>rand()\<close> reads and advances a state that belongs to the C library. The state is
  made explicit: the library's constant \<^verbatim>\<open>RAND_MAX\<close>, the sequence of numbers it will
  return, and how many have been drawn so far. The C standard promises
  \<^verbatim>\<open>0 <= rand() <= RAND_MAX\<close>; \<open>rand_in_range\<close> says so for the next draw.
\<close>

record rand_source =
  RAND_MAX :: int
  draws :: "nat \<Rightarrow> int"
  drawn :: nat

definition rand :: "rand_source \<Rightarrow> int \<times> rand_source" where
  "rand rs = (draws rs (drawn rs), rs\<lparr>drawn := Suc (drawn rs)\<rparr>)"

definition rand_in_range :: "rand_source \<Rightarrow> bool" where
  "rand_in_range rs \<longleftrightarrow>
     0 < RAND_MAX rs \<and> 0 \<le> draws rs (drawn rs) \<and> draws rs (drawn rs) \<le> RAND_MAX rs"

definition PITWO :: real where
  "PITWO = pi * 2"

subsection \<open>Frames and samples\<close>

text \<open>
  \<^verbatim>\<open>speechPlayer_frame_t\<close> is declared in a header that is not among the sources. The
  record has the fields that the source reads, all of them \<^verbatim>\<open>double\<close>.
\<close>

record speechPlayer_frame_t =
  voicePitch :: real
  vibratoPitchOffset :: real
  vibratoSpeed :: real
  voiceTurbulenceAmplitude :: real
  glottalOpenQuotient :: real
  voiceAmplitude :: real
  aspirationAmplitude :: real
  cf1 :: real
  cf2 :: real
  cf3 :: real
  cf4 :: real
  cf5 :: real
  cf6 :: real
  cfN0 :: real
  cfNP :: real
  cb1 :: real
  cb2 :: real
  cb3 :: real
  cb4 :: real
  cb5 :: real
  cb6 :: real
  cbN0 :: real
  cbNP :: real
  ca1 :: real
  ca2 :: real
  ca3 :: real
  ca4 :: real
  ca5 :: real
  ca6 :: real
  caN0 :: real
  caNP :: real
  fricationAmplitude :: real
  pf1 :: real
  pf2 :: real
  pf3 :: real
  pf4 :: real
  pf5 :: real
  pf6 :: real
  pb1 :: real
  pb2 :: real
  pb3 :: real
  pb4 :: real
  pb5 :: real
  pb6 :: real
  pa1 :: real
  pa2 :: real
  pa3 :: real
  pa4 :: real
  pa5 :: real
  pa6 :: real
  dcf1 :: real
  dcb1 :: real
  gain :: real

text \<open>
  Modelled from the spec: the declaration of \<^verbatim>\<open>sample\<close> is missing from the sources.
  The spec calls a sample "a signed integer value", so the field \<^verbatim>\<open>value\<close> is an
  integer, and assigning a \<^verbatim>\<open>double\<close> to it converts with \<^const>\<open>trunc\<close>.
\<close>

record sample =
  sample_value :: int

subsection \<open>NoiseGenerator\<close>

record NoiseGenerator =
  lastValue :: real

definition new_NoiseGenerator :: NoiseGenerator where
  "new_NoiseGenerator = \<lparr>lastValue = 0\<rparr>"

definition NoiseGenerator_getNext ::
  "NoiseGenerator \<Rightarrow> rand_source \<Rightarrow> real \<times> NoiseGenerator \<times> rand_source" where
  "NoiseGenerator_getNext this rs =
     (let (x, rs') = rand rs;
          v = (real_of_int x / real_of_int (RAND_MAX rs)) + 0.75 * lastValue this
      in (v, this\<lparr>lastValue := v\<rparr>, rs'))"

subsection \<open>FrequencyGenerator\<close>

record FrequencyGenerator =
  fg_sampleRate :: int
  lastCyclePos :: real

definition new_FrequencyGenerator :: "int \<Rightarrow> FrequencyGenerator" where
  "new_FrequencyGenerator sr = \<lparr>fg_sampleRate = sr, lastCyclePos = 0\<rparr>"

definition FrequencyGenerator_getNext ::
  "FrequencyGenerator \<Rightarrow> real \<Rightarrow> real \<times> FrequencyGenerator" where
  "FrequencyGenerator_getNext this frequency =
     (let cyclePos = fmod ((frequency / real_of_int (fg_sampleRate this)) + lastCyclePos this) 1
      in (cyclePos, this\<lparr>lastCyclePos := cyclePos\<rparr>))"

subsection \<open>VoiceGenerator\<close>

record VoiceGenerator =
  pitchGen :: FrequencyGenerator
  vibratoGen :: FrequencyGenerator
  aspirationGen :: NoiseGenerator
  glottisOpen :: bool

definition new_VoiceGenerator :: "int \<Rightarrow> VoiceGenerator" where
  "new_VoiceGenerator sr =
     \<lparr>pitchGen = new_FrequencyGenerator sr, vibratoGen = new_FrequencyGenerator sr,
      aspirationGen = new_NoiseGenerator, glottisOpen = False\<rparr>"

definition VoiceGenerator_getNext ::
  "VoiceGenerator \<Rightarrow> speechPlayer_frame_t \<Rightarrow> rand_source
     \<Rightarrow> real \<times> VoiceGenerator \<times> rand_source" where
  "VoiceGenerator_getNext this frame rs =
     (let (vibPos, vg) = FrequencyGenerator_getNext (vibratoGen this) (vibratoSpeed frame);
          vibrato = (sin (vibPos * PITWO) * 0.06 * vibratoPitchOffset frame) + 1;
          (voice, pg) = FrequencyGenerator_getNext (pitchGen this) (voicePitch frame * vibrato);
          (aspiration, ag, rs') = NoiseGenerator_getNext (aspirationGen this) rs;
          turbulence = aspiration * voiceTurbulenceAmplitude frame;
          go = (voice \<ge> glottalOpenQuotient frame);
          turbulence' = (if go then turbulence * 0.1 else turbulence);
          voice' = (voice * 2) - 1;
          voice'' = voice' + turbulence'
      in ((voice'' * voiceAmplitude frame) + (aspiration * aspirationAmplitude frame),
          this\<lparr>pitchGen := pg, vibratoGen := vg, aspirationGen := ag, glottisOpen := go\<rparr>,
          rs'))"

subsection \<open>Resonator\<close>

text \<open>
  The constructor assigns \<^verbatim>\<open>sampleRate\<close>, \<^verbatim>\<open>anti\<close>, \<^verbatim>\<open>setOnce\<close>, \<^verbatim>\<open>p1\<close> and \<^verbatim>\<open>p2\<close> and
  leaves \<^verbatim>\<open>frequency\<close>, \<^verbatim>\<open>bandwidth\<close>, \<^verbatim>\<open>a\<close>, \<^verbatim>\<open>b\<close> and \<^verbatim>\<open>c\<close> as they are in the storage the
  object is built in. The model's constructor takes that storage as its last argument.
\<close>

record Resonator =
  res_sampleRate :: int
  res_frequency :: real
  res_bandwidth :: real
  res_anti :: bool
  res_setOnce :: bool
  res_a :: real
  res_b :: real
  res_c :: real
  res_p1 :: real
  res_p2 :: real

definition new_Resonator :: "int \<Rightarrow> bool \<Rightarrow> Resonator \<Rightarrow> Resonator" where
  "new_Resonator sr anti mem =
     mem\<lparr>res_sampleRate := sr, res_anti := anti, res_setOnce := False,
         res_p1 := 0, res_p2 := 0\<rparr>"

definition Resonator_setParams :: "Resonator \<Rightarrow> real \<Rightarrow> real \<Rightarrow> Resonator" where
  "Resonator_setParams this frequency bandwidth =
     (let this' =
        (if \<not> res_setOnce this \<or> frequency \<noteq> res_frequency this
              \<or> bandwidth \<noteq> res_bandwidth this
         then
           (let r = exp (- pi / real_of_int (res_sampleRate this) * bandwidth);
                c = - (r * r);
                b = r * cos (PITWO / real_of_int (res_sampleRate this) * - frequency) * 2;
                a = 1 - b - c
            in if res_anti this \<and> frequency \<noteq> 0
               then
                 (let a' = 1 / a; c' = c * - a'; b' = b * - a'
                  in this\<lparr>res_frequency := frequency, res_bandwidth := bandwidth,
                          res_a := a', res_b := b', res_c := c'\<rparr>)
               else this\<lparr>res_frequency := frequency, res_bandwidth := bandwidth,
                         res_a := a, res_b := b, res_c := c\<rparr>)
         else this)
      in this'\<lparr>res_setOnce := True\<rparr>)"

definition Resonator_resonate ::
  "Resonator \<Rightarrow> real \<Rightarrow> real \<Rightarrow> real \<Rightarrow> real \<times> Resonator" where
  "Resonator_resonate this inp frequency bandwidth =
     (let this' = Resonator_setParams this frequency bandwidth;
          out = res_a this' * inp + res_b this' * res_p1 this' + res_c this' * res_p2 this'
      in (out, this'\<lparr>res_p2 := res_p1 this',
                     res_p1 := (if res_anti this' then inp else out)\<rparr>))"

subsection \<open>The blend utility and the two formant generators\<close>

text \<open>
  \<^verbatim>\<open>calculateValueAtFadePosition\<close> is declared in \<^verbatim>\<open>utils.h\<close>, which is not among the
  sources. Both formant generators take it as their first argument \<open>fade\<close>; its three
  arguments are the old value, the new value and the fade ratio. \<open>linearFade\<close> is one
  function that meets the contract of the spec (ratio 0 gives the old value), used to
  run the generators on concrete inputs.
\<close>

type_synonym fade_fn = "real \<Rightarrow> real \<Rightarrow> real \<Rightarrow> real"

definition linearFade :: fade_fn where
  "linearFade oldVal newVal ratio = oldVal + (newVal - oldVal) * ratio"

record CascadeFormantGenerator =
  cas_sampleRate :: int
  cas_r1 :: Resonator
  cas_r2 :: Resonator
  cas_r3 :: Resonator
  cas_r4 :: Resonator
  cas_r5 :: Resonator
  cas_r6 :: Resonator
  cas_rN0 :: Resonator
  cas_rNP :: Resonator

definition new_CascadeFormantGenerator ::
  "int \<Rightarrow> CascadeFormantGenerator \<Rightarrow> CascadeFormantGenerator" where
  "new_CascadeFormantGenerator sr mem =
     \<lparr>cas_sampleRate = sr,
      cas_r1 = new_Resonator sr False (cas_r1 mem), cas_r2 = new_Resonator sr False (cas_r2 mem),
      cas_r3 = new_Resonator sr False (cas_r3 mem), cas_r4 = new_Resonator sr False (cas_r4 mem),
      cas_r5 = new_Resonator sr False (cas_r5 mem), cas_r6 = new_Resonator sr False (cas_r6 mem),
      cas_rN0 = new_Resonator sr True (cas_rN0 mem),
      cas_rNP = new_Resonator sr False (cas_rNP mem)\<rparr>"

definition CascadeFormantGenerator_getNext ::
  "fade_fn \<Rightarrow> CascadeFormantGenerator \<Rightarrow> speechPlayer_frame_t \<Rightarrow> bool \<Rightarrow> real
     \<Rightarrow> real \<times> CascadeFormantGenerator" where
  "CascadeFormantGenerator_getNext fade this frame glottisOpen' input =
     (let input' = input / 2;
          output0 = input';
          (y1, r1) =
            (if glottisOpen'
             then Resonator_resonate (cas_r1 this) output0
                    (cf1 frame + dcf1 frame) (cb1 frame + dcb1 frame)
             else Resonator_resonate (cas_r1 this) output0 (cf1 frame) (cb1 frame));
          output1 = fade output0 y1 (ca1 frame);
          (y2, r2) = Resonator_resonate (cas_r2 this) output1 (cf2 frame) (cb2 frame);
          output2 = fade output1 y2 (ca2 frame);
          (y3, r3) = Resonator_resonate (cas_r3 this) output2 (cf3 frame) (cb3 frame);
          output3 = fade output2 y3 (ca3 frame);
          (y4, r4) = Resonator_resonate (cas_r4 this) output3 (cf4 frame) (cb4 frame);
          output4 = fade output3 y4 (ca4 frame);
          (y5, r5) = Resonator_resonate (cas_r5 this) output4 (cf5 frame) (cb5 frame);
          output5 = fade output4 y5 (ca5 frame);
          (y6, r6) = Resonator_resonate (cas_r6 this) output5 (cf6 frame) (cb6 frame);
          output6 = fade output5 y6 (ca6 frame);
          (yN0, rN0) = Resonator_resonate (cas_rN0 this) output6 (cfN0 frame) (cbN0 frame);
          output7 = fade output6 yN0 (caN0 frame);
          (yNP, rNP) = Resonator_resonate (cas_rNP this) output7 (cfNP frame) (cbNP frame);
          output8 = fade output7 yNP (caNP frame)
      in (output8,
          this\<lparr>cas_r1 := r1, cas_r2 := r2, cas_r3 := r3, cas_r4 := r4, cas_r5 := r5,
               cas_r6 := r6, cas_rN0 := rN0, cas_rNP := rNP\<rparr>))"

record ParallelFormantGenerator =
  par_sampleRate :: int
  par_r1 :: Resonator
  par_r2 :: Resonator
  par_r3 :: Resonator
  par_r4 :: Resonator
  par_r5 :: Resonator
  par_r6 :: Resonator

definition new_ParallelFormantGenerator ::
  "int \<Rightarrow> ParallelFormantGenerator \<Rightarrow> ParallelFormantGenerator" where
  "new_ParallelFormantGenerator sr mem =
     \<lparr>par_sampleRate = sr,
      par_r1 = new_Resonator sr False (par_r1 mem), par_r2 = new_Resonator sr False (par_r2 mem),
      par_r3 = new_Resonator sr False (par_r3 mem), par_r4 = new_Resonator sr False (par_r4 mem),
      par_r5 = new_Resonator sr False (par_r5 mem),
      par_r6 = new_Resonator sr False (par_r6 mem)\<rparr>"

definition ParallelFormantGenerator_getNext ::
  "fade_fn \<Rightarrow> ParallelFormantGenerator \<Rightarrow> speechPlayer_frame_t \<Rightarrow> real
     \<Rightarrow> real \<times> ParallelFormantGenerator" where
  "ParallelFormantGenerator_getNext fade this frame input =
     (let input' = input / 2;
          output0 = input';
          (y1, r1) = Resonator_resonate (par_r1 this) input' (pf1 frame) (pb1 frame);
          output1 = output0 + fade input' (y1 - input') (pa1 frame);
          (y2, r2) = Resonator_resonate (par_r2 this) input' (pf2 frame) (pb2 frame);
          output2 = output1 + fade input' (y2 - input') (pa2 frame);
          (y3, r3) = Resonator_resonate (par_r3 this) input' (pf3 frame) (pb3 frame);
          output3 = output2 + fade input' (y3 - input') (pa3 frame);
          (y4, r4) = Resonator_resonate (par_r4 this) input' (pf4 frame) (pb4 frame);
          output4 = output3 + fade input' (y4 - input') (pa4 frame);
          (y5, r5) = Resonator_resonate (par_r5 this) input' (pf5 frame) (pb5 frame);
          output5 = output4 + fade input' (y5 - input') (pa5 frame);
          (y6, r6) = Resonator_resonate (par_r6 this) input' (pf6 frame) (pb6 frame);
          output6 = output5 + fade input' (y6 - input') (pa6 frame)
      in (output6,
          this\<lparr>par_r1 := r1, par_r2 := r2, par_r3 := r3, par_r4 := r4, par_r5 := r5,
               par_r6 := r6\<rparr>))"

subsection \<open>SpeechWaveGeneratorImpl\<close>

text \<open>
  \<^verbatim>\<open>FrameManager\<close> is an abstract class declared outside the sources. Its state is a
  value of any type \<open>'fm\<close>, and its method \<^verbatim>\<open>getCurrentFrame\<close> is a function the model
  takes as an argument: it returns the frame, \<open>None\<close> for the null pointer, and the
  manager's next state. The field \<^verbatim>\<open>frameManager\<close> is \<open>None\<close> for the null pointer.

  \<^verbatim>\<open>min\<close> and \<^verbatim>\<open>max\<close> are the minimum and maximum of two numbers. The output buffer
  is the memory behind the pointer \<^verbatim>\<open>sampleBuf\<close>: a function from the offset to the
  sample stored there.
\<close>

type_synonym 'fm getCurrentFrame_fn = "'fm \<Rightarrow> speechPlayer_frame_t option \<times> 'fm"

record 'fm SpeechWaveGeneratorImpl =
  sampleRate :: int
  voiceGenerator :: VoiceGenerator
  fricGenerator :: NoiseGenerator
  cascade :: CascadeFormantGenerator
  parallel :: ParallelFormantGenerator
  frameManager :: "'fm option"

definition new_SpeechWaveGeneratorImpl ::
  "int \<Rightarrow> 'fm SpeechWaveGeneratorImpl \<Rightarrow> 'fm SpeechWaveGeneratorImpl" where
  "new_SpeechWaveGeneratorImpl sr mem =
     \<lparr>sampleRate = sr, voiceGenerator = new_VoiceGenerator sr,
      fricGenerator = new_NoiseGenerator,
      cascade = new_CascadeFormantGenerator sr (cascade mem),
      parallel = new_ParallelFormantGenerator sr (parallel mem),
      frameManager = None\<rparr>"

definition create :: "int \<Rightarrow> 'fm SpeechWaveGeneratorImpl \<Rightarrow> 'fm SpeechWaveGeneratorImpl" where
  "create sampleRate' mem = new_SpeechWaveGeneratorImpl sampleRate' mem"

definition setFrameManager ::
  "'fm SpeechWaveGeneratorImpl \<Rightarrow> 'fm option \<Rightarrow> 'fm SpeechWaveGeneratorImpl" where
  "setFrameManager this fm = this\<lparr>frameManager := fm\<rparr>"

text \<open>
  One pass through the body of the loop of \<^verbatim>\<open>generate\<close>, for the index \<open>i\<close>. The state
  of the loop is the frame manager behind the pointer, the engine, the random source and
  the buffer.
\<close>

type_synonym 'fm gen_state =
  "'fm \<times> 'fm SpeechWaveGeneratorImpl \<times> rand_source \<times> (nat \<Rightarrow> sample)"

definition generate_body ::
  "'fm getCurrentFrame_fn \<Rightarrow> fade_fn \<Rightarrow> nat \<Rightarrow> 'fm gen_state \<Rightarrow> 'fm gen_state" where
  "generate_body getCurrentFrame fade i st =
     (let (fm, this, rs, sampleBuf) = st;
          (frame', fm') = getCurrentFrame fm
      in case frame' of
           Some frame \<Rightarrow>
             (let (voice, vg, rs1) = VoiceGenerator_getNext (voiceGenerator this) frame rs;
                  (cascadeOut, cas) =
                    CascadeFormantGenerator_getNext fade (cascade this) frame (glottisOpen vg) voice;
                  (noise, fg, rs2) = NoiseGenerator_getNext (fricGenerator this) rs1;
                  fric = noise * fricationAmplitude frame;
                  (parallelOut, par) =
                    ParallelFormantGenerator_getNext fade (parallel this) frame fric;
                  out = (cascadeOut + parallelOut) * gain frame
              in (fm',
                  this\<lparr>voiceGenerator := vg, fricGenerator := fg, cascade := cas,
                       parallel := par\<rparr>,
                  rs2,
                  sampleBuf(i := (sampleBuf i)
                     \<lparr>sample_value := trunc (max (min (out * 4000) 32000) (- 32000))\<rparr>)))
         | None \<Rightarrow>
             (fm', this, rs, sampleBuf(i := (sampleBuf i)\<lparr>sample_value := 0\<rparr>)))"

abbreviation gs_fm :: "'fm gen_state \<Rightarrow> 'fm" where
  "gs_fm st \<equiv> fst st"

abbreviation gs_engine :: "'fm gen_state \<Rightarrow> 'fm SpeechWaveGeneratorImpl" where
  "gs_engine st \<equiv> fst (snd st)"

abbreviation gs_rand :: "'fm gen_state \<Rightarrow> rand_source" where
  "gs_rand st \<equiv> fst (snd (snd st))"

abbreviation gs_buf :: "'fm gen_state \<Rightarrow> nat \<Rightarrow> sample" where
  "gs_buf st \<equiv> snd (snd (snd st))"

text \<open>
  The loop \<^verbatim>\<open>for(int i=0;i<sampleCount;++i)\<close>: \<open>generate_loop k i\<close> runs the \<open>k\<close>
  passes that remain when the counter is \<open>i\<close>.
\<close>

fun generate_loop ::
  "'fm getCurrentFrame_fn \<Rightarrow> fade_fn \<Rightarrow> nat \<Rightarrow> nat \<Rightarrow> 'fm gen_state \<Rightarrow> 'fm gen_state" where
  "generate_loop getCurrentFrame fade 0 i st = st"
| "generate_loop getCurrentFrame fade (Suc k) i st =
     generate_loop getCurrentFrame fade k (Suc i) (generate_body getCurrentFrame fade i st)"

definition generate ::
  "'fm getCurrentFrame_fn \<Rightarrow> fade_fn \<Rightarrow> 'fm SpeechWaveGeneratorImpl \<Rightarrow> int
     \<Rightarrow> (nat \<Rightarrow> sample) \<Rightarrow> rand_source
     \<Rightarrow> 'fm SpeechWaveGeneratorImpl \<times> rand_source \<times> (nat \<Rightarrow> sample)" where
  "generate getCurrentFrame fade this sampleCount sampleBuf rs =
     (case frameManager this of
        None \<Rightarrow> (this, rs, sampleBuf)
      | Some fm \<Rightarrow>
          (let (fm', this', rs', sampleBuf') =
                 generate_loop getCurrentFrame fade (nat sampleCount) 0 (fm, this, rs, sampleBuf)
           in (this'\<lparr>frameManager := Some fm'\<rparr>, rs', sampleBuf')))"

subsection \<open>The frame source over time\<close>

text \<open>
  Only \<^verbatim>\<open>generate\<close> calls \<^verbatim>\<open>getCurrentFrame\<close>, once in each pass of its loop, so the
  frame manager met by pass \<open>j\<close> is the one that \<open>j\<close> calls have advanced.
\<close>

fun frameManager_after :: "'fm getCurrentFrame_fn \<Rightarrow> 'fm \<Rightarrow> nat \<Rightarrow> 'fm" where
  "frameManager_after getCurrentFrame fm 0 = fm"
| "frameManager_after getCurrentFrame fm (Suc j) =
     frameManager_after getCurrentFrame (snd (getCurrentFrame fm)) j"

text \<open>A frame manager for running the engine: a queue of frames, null when it is empty.\<close>

definition queue_getCurrentFrame :: "speechPlayer_frame_t option list getCurrentFrame_fn" where
  "queue_getCurrentFrame q = (case q of [] \<Rightarrow> (None, []) | f # q' \<Rightarrow> (f, q'))"

subsection \<open>Sequences of calls on one Resonator\<close>

datatype resonator_call = SetParams real real | Resonate real real real

fun Resonator_call :: "Resonator \<Rightarrow> resonator_call \<Rightarrow> Resonator" where
  "Resonator_call this (SetParams frequency bandwidth) =
     Resonator_setParams this frequency bandwidth"
| "Resonator_call this (Resonate inp frequency bandwidth) =
     snd (Resonator_resonate this inp frequency bandwidth)"

fun Resonator_calls :: "Resonator \<Rightarrow> resonator_call list \<Rightarrow> Resonator" where
  "Resonator_calls this [] = this"
| "Resonator_calls this (x # xs) = Resonator_calls (Resonator_call this x) xs"

text \<open>The outputs of a sequence of \<^verbatim>\<open>resonate(in, frequency, bandwidth)\<close> calls.\<close>

fun Resonator_outputs :: "Resonator \<Rightarrow> (real \<times> real \<times> real) list \<Rightarrow> real list" where
  "Resonator_outputs this [] = []"
| "Resonator_outputs this ((inp, frequency, bandwidth) # xs) =
     fst (Resonator_resonate this inp frequency bandwidth)
       # Resonator_outputs (snd (Resonator_resonate this inp frequency bandwidth)) xs"

text \<open>
  The coefficients that lines 108 to 116 of the source compute from a frequency and a
  bandwidth, and the condition under which \<^verbatim>\<open>setParams\<close> reaches the inversion of lines
  113 to 115: both of its guards hold.
\<close>

definition Resonator_coefficients :: "int \<Rightarrow> bool \<Rightarrow> real \<Rightarrow> real \<Rightarrow> real \<times> real \<times> real" where
  "Resonator_coefficients sr anti frequency bandwidth =
     (let r = exp (- pi / real_of_int sr * bandwidth);
          c = - (r * r);
          b = r * cos (PITWO / real_of_int sr * - frequency) * 2;
          a = 1 - b - c
      in if anti \<and> frequency \<noteq> 0
         then (let a' = 1 / a; c' = c * - a'; b' = b * - a' in (a', b', c'))
         else (a, b, c))"

definition Resonator_inverts :: "Resonator \<Rightarrow> real \<Rightarrow> real \<Rightarrow> bool" where
  "Resonator_inverts this frequency bandwidth \<longleftrightarrow>
     (\<not> res_setOnce this \<or> frequency \<noteq> res_frequency this
        \<or> bandwidth \<noteq> res_bandwidth this)
     \<and> (res_anti this \<and> frequency \<noteq> 0)"

definition Resonator_cached :: "Resonator \<Rightarrow> bool" where
  "Resonator_cached this \<longleftrightarrow>
     (res_setOnce this \<longrightarrow>
        (res_a this, res_b this, res_c this)
          = Resonator_coefficients (res_sampleRate this) (res_anti this)
              (res_frequency this) (res_bandwidth this))"

subsection \<open>The reference resonator of the spec\<close>

text \<open>
  The resonator as the spec words it, without the cache: every call derives
  \<open>r = exp(-\<pi> bandwidth / sampleRate)\<close>, \<open>c = -r\<^sup>2\<close>,
  \<open>b = 2 r cos(2\<pi> freq / sampleRate)\<close>, \<open>a = 1 - b - c\<close>, inverts them in
  anti-resonance mode when the frequency is not 0, and then applies the recurrence
  \<open>output = a input + b p1 + c p2\<close>.
\<close>

record ReferenceResonator =
  ref_sampleRate :: int
  ref_anti :: bool
  ref_p1 :: real
  ref_p2 :: real

definition new_ReferenceResonator :: "int \<Rightarrow> bool \<Rightarrow> ReferenceResonator" where
  "new_ReferenceResonator sr anti =
     \<lparr>ref_sampleRate = sr, ref_anti = anti, ref_p1 = 0, ref_p2 = 0\<rparr>"

definition reference_coefficients :: "int \<Rightarrow> bool \<Rightarrow> real \<Rightarrow> real \<Rightarrow> real \<times> real \<times> real" where
  "reference_coefficients sr anti freq bw =
     (let r = exp (- pi * bw / real_of_int sr);
          c = - (r ^ 2);
          b = 2 * r * cos (2 * pi * freq / real_of_int sr);
          a = 1 - b - c
      in if anti \<and> freq \<noteq> 0
         then (let a' = 1 / a in (a', b * (- a'), c * (- a')))
         else (a, b, c))"

definition ReferenceResonator_resonate ::
  "ReferenceResonator \<Rightarrow> real \<Rightarrow> real \<Rightarrow> real \<Rightarrow> real \<times> ReferenceResonator" where
  "ReferenceResonator_resonate this inp freq bw =
     (let (a, b, c) = reference_coefficients (ref_sampleRate this) (ref_anti this) freq bw;
          out = a * inp + b * ref_p1 this + c * ref_p2 this
      in (out, this\<lparr>ref_p2 := ref_p1 this, ref_p1 := (if ref_anti this then inp else out)\<rparr>))"

fun ReferenceResonator_outputs ::
  "ReferenceResonator \<Rightarrow> (real \<times> real \<times> real) list \<Rightarrow> real list" where
  "ReferenceResonator_outputs this [] = []"
| "ReferenceResonator_outputs this ((inp, freq, bw) # xs) =
     fst (ReferenceResonator_resonate this inp freq bw)
       # ReferenceResonator_outputs (snd (ReferenceResonator_resonate this inp freq bw)) xs"

subsection \<open>Concrete inputs\<close>

text \<open>
  A random source whose every draw is \<^verbatim>\<open>RAND_MAX\<close> and one whose every draw is 0; the
  steady frame of the spec's end-to-end scenario (pitch 120 Hz, every formant weight 0,
  gain 1), with formants at 1000 Hz and bandwidth 100 Hz; the same frame with pitch 0 and
  gain 7/8000, for which the scaled output is -7/4; a buffer whose every slot holds
  the value 5; storage filled with zero bytes, for the constructors.
\<close>

definition rand_at_max :: rand_source where
  "rand_at_max = \<lparr>RAND_MAX = 32767, draws = (\<lambda>i. 32767), drawn = 0\<rparr>"

definition rand_zero :: rand_source where
  "rand_zero = \<lparr>RAND_MAX = 32767, draws = (\<lambda>i. 0), drawn = 0\<rparr>"

definition steadyFrame :: speechPlayer_frame_t where
  "steadyFrame =
     \<lparr>voicePitch = 120, vibratoPitchOffset = 0, vibratoSpeed = 0, voiceTurbulenceAmplitude = 0,
      glottalOpenQuotient = 0.5, voiceAmplitude = 1, aspirationAmplitude = 0,
      cf1 = 1000, cf2 = 1000, cf3 = 1000, cf4 = 1000, cf5 = 1000, cf6 = 1000,
      cfN0 = 1000, cfNP = 1000,
      cb1 = 100, cb2 = 100, cb3 = 100, cb4 = 100, cb5 = 100, cb6 = 100, cbN0 = 100, cbNP = 100,
      ca1 = 0, ca2 = 0, ca3 = 0, ca4 = 0, ca5 = 0, ca6 = 0, caN0 = 0, caNP = 0,
      fricationAmplitude = 0,
      pf1 = 1000, pf2 = 1000, pf3 = 1000, pf4 = 1000, pf5 = 1000, pf6 = 1000,
      pb1 = 100, pb2 = 100, pb3 = 100, pb4 = 100, pb5 = 100, pb6 = 100,
      pa1 = 0, pa2 = 0, pa3 = 0, pa4 = 0, pa5 = 0, pa6 = 0,
      dcf1 = 0, dcb1 = 0, gain = 1\<rparr>"

definition fractionFrame :: speechPlayer_frame_t where
  "fractionFrame = steadyFrame\<lparr>voicePitch := 0, gain := 7 / 8000\<rparr>"

definition staleBuffer :: "nat \<Rightarrow> sample" where
  "staleBuffer = (\<lambda>i. \<lparr>sample_value = 5\<rparr>)"

definition blankResonator :: Resonator where
  "blankResonator =
     \<lparr>res_sampleRate = 0, res_frequency = 0, res_bandwidth = 0, res_anti = False,
      res_setOnce = False, res_a = 0, res_b = 0, res_c = 0, res_p1 = 0, res_p2 = 0\<rparr>"

definition blankCascade :: CascadeFormantGenerator where
  "blankCascade =
     \<lparr>cas_sampleRate = 0, cas_r1 = blankResonator, cas_r2 = blankResonator,
      cas_r3 = blankResonator, cas_r4 = blankResonator, cas_r5 = blankResonator,
      cas_r6 = blankResonator, cas_rN0 = blankResonator, cas_rNP = blankResonator\<rparr>"

definition blankParallel :: ParallelFormantGenerator where
  "blankParallel =
     \<lparr>par_sampleRate = 0, par_r1 = blankResonator, par_r2 = blankResonator,
      par_r3 = blankResonator, par_r4 = blankResonator, par_r5 = blankResonator,
      par_r6 = blankResonator\<rparr>"

definition blankEngine :: "'fm SpeechWaveGeneratorImpl" where
  "blankEngine =
     \<lparr>sampleRate = 0, voiceGenerator = new_VoiceGenerator 0, fricGenerator = new_NoiseGenerator,
      cascade = blankCascade, parallel = blankParallel, frameManager = None\<rparr>"

section \<open>Auxiliary facts\<close>

subsection \<open>fmod and the conversion to an integer\<close>

lemma fmod_one_nonneg: "0 \<le> x \<Longrightarrow> fmod x 1 = frac x"
  by (simp add: fmod_def trunc_def frac_def)

lemma fmod_one_neg: "x < 0 \<Longrightarrow> fmod x 1 = - frac (- x)"
  by (simp add: fmod_def trunc_def frac_def ceiling_def)

lemma fmod_one_bounds: "- 1 < fmod x 1 \<and> fmod x 1 < 1"
proof (cases "0 \<le> x")
  case True
  have "- 1 < frac x" using frac_ge_0 [of x] by linarith
  with True show ?thesis by (simp add: fmod_one_nonneg frac_lt_1)
next
  case False
  have "- 1 < frac (- x)" using frac_ge_0 [of "- x"] by linarith
  with False show ?thesis by (simp add: fmod_one_neg frac_lt_1)
qed

lemma fmod_one_small: "- 1 < x \<Longrightarrow> x < 1 \<Longrightarrow> fmod x 1 = x"
  by (cases "0 \<le> x") (simp_all add: fmod_one_nonneg fmod_one_neg frac_eq)

lemma fmod_one_shift: "0 \<le> x \<Longrightarrow> fmod (x + 1) 1 = fmod x 1"
  by (simp add: fmod_one_nonneg frac_1_eq)

lemma trunc_clamp_range:
  "- 32000 \<le> trunc (max (min x 32000) (- 32000)) \<and> trunc (max (min x 32000) (- 32000)) \<le> 32000"
  by (auto simp add: trunc_def le_floor_iff floor_le_iff ceiling_le_iff le_ceiling_iff)

lemma trunc_rails: "trunc 32000 = 32000" "trunc (- 32000) = - 32000"
  by (simp_all add: trunc_def)

lemma trunc_clamp_rails:
  "32000 \<le> x \<Longrightarrow> trunc (max (min x 32000) (- 32000)) = 32000"
  "x \<le> - 32000 \<Longrightarrow> trunc (max (min x 32000) (- 32000)) = - 32000"
  by (simp_all add: trunc_def)

lemma trunc_near: "\<bar>real_of_int (trunc x) - x\<bar> < 1"
  unfolding trunc_def by (auto; linarith)

subsection \<open>The resonator and its cache\<close>

text \<open>The source's coefficients are those of the spec's formulas.\<close>

lemma Resonator_coefficients_reference:
  "Resonator_coefficients sr anti f bw = reference_coefficients sr anti f bw"
proof -
  have e: "exp (- pi / real_of_int sr * bw) = exp (- pi * bw / real_of_int sr)"
    by simp
  have c: "cos (PITWO / real_of_int sr * - f) = cos (2 * pi * f / real_of_int sr)"
  proof -
    have "PITWO / real_of_int sr * - f = - (2 * pi * f / real_of_int sr)"
      by (simp add: PITWO_def)
    then show ?thesis by (simp only: cos_minus)
  qed
  show ?thesis
    unfolding Resonator_coefficients_def reference_coefficients_def e c
    by (simp add: Let_def power2_eq_square ac_simps)
qed

lemma Resonator_setParams_fields:
  "res_sampleRate (Resonator_setParams this f bw) = res_sampleRate this"
  "res_anti (Resonator_setParams this f bw) = res_anti this"
  "res_p1 (Resonator_setParams this f bw) = res_p1 this"
  "res_p2 (Resonator_setParams this f bw) = res_p2 this"
  "res_setOnce (Resonator_setParams this f bw)"
  "res_frequency (Resonator_setParams this f bw) = f"
  "res_bandwidth (Resonator_setParams this f bw) = bw"
  by (auto simp add: Resonator_setParams_def Let_def)

text \<open>
  Whether the guard of \<^verbatim>\<open>setParams\<close> recomputes or not, a resonator whose cache is sound
  ends with the coefficients of the parameters it was called with.
\<close>

lemma Resonator_setParams_coefficients:
  assumes "Resonator_cached this"
  shows "(res_a (Resonator_setParams this f bw), res_b (Resonator_setParams this f bw),
          res_c (Resonator_setParams this f bw))
           = Resonator_coefficients (res_sampleRate this) (res_anti this) f bw"
proof (cases "\<not> res_setOnce this \<or> f \<noteq> res_frequency this \<or> bw \<noteq> res_bandwidth this")
  case True
  then show ?thesis
    by (simp add: Resonator_setParams_def Resonator_coefficients_def Let_def)
next
  case False
  then have "Resonator_setParams this f bw = this\<lparr>res_setOnce := True\<rparr>"
    by (simp add: Resonator_setParams_def)
  with False assms show ?thesis
    by (simp add: Resonator_cached_def)
qed

lemma Resonator_setParams_cached:
  assumes "Resonator_cached this"
  shows "Resonator_cached (Resonator_setParams this f bw)"
  using Resonator_setParams_coefficients [OF assms, of f bw]
  by (simp add: Resonator_cached_def Resonator_setParams_fields)

lemma Resonator_resonate_fields:
  "res_sampleRate (snd (Resonator_resonate this x f bw)) = res_sampleRate this"
  "res_anti (snd (Resonator_resonate this x f bw)) = res_anti this"
  "res_setOnce (snd (Resonator_resonate this x f bw))"
  "res_frequency (snd (Resonator_resonate this x f bw)) = f"
  "res_bandwidth (snd (Resonator_resonate this x f bw)) = bw"
  "res_a (snd (Resonator_resonate this x f bw)) = res_a (Resonator_setParams this f bw)"
  "res_b (snd (Resonator_resonate this x f bw)) = res_b (Resonator_setParams this f bw)"
  "res_c (snd (Resonator_resonate this x f bw)) = res_c (Resonator_setParams this f bw)"
  "res_p2 (snd (Resonator_resonate this x f bw)) = res_p1 this"
  "res_p1 (snd (Resonator_resonate this x f bw))
     = (if res_anti this then x else fst (Resonator_resonate this x f bw))"
  "fst (Resonator_resonate this x f bw)
     = res_a (Resonator_setParams this f bw) * x + res_b (Resonator_setParams this f bw) * res_p1 this
       + res_c (Resonator_setParams this f bw) * res_p2 this"
  by (simp_all add: Resonator_resonate_def Let_def Resonator_setParams_fields)

lemma Resonator_resonate_cached:
  assumes "Resonator_cached this"
  shows "Resonator_cached (snd (Resonator_resonate this x f bw))"
  using Resonator_setParams_coefficients [OF assms, of f bw]
  by (simp add: Resonator_cached_def Resonator_resonate_fields)

lemma new_Resonator_cached: "Resonator_cached (new_Resonator sr anti mem)"
  by (simp add: Resonator_cached_def new_Resonator_def)

text \<open>
  One call keeps the resonator and the reference in step: same output, same memory.
\<close>

lemma Resonator_resonate_simulation:
  assumes "Resonator_cached this"
    and "res_sampleRate this = ref_sampleRate ref" and "res_anti this = ref_anti ref"
    and "res_p1 this = ref_p1 ref" and "res_p2 this = ref_p2 ref"
  shows "fst (Resonator_resonate this x f bw) = fst (ReferenceResonator_resonate ref x f bw)"
    and "res_sampleRate (snd (Resonator_resonate this x f bw))
           = ref_sampleRate (snd (ReferenceResonator_resonate ref x f bw))"
    and "res_anti (snd (Resonator_resonate this x f bw))
           = ref_anti (snd (ReferenceResonator_resonate ref x f bw))"
    and "res_p1 (snd (Resonator_resonate this x f bw))
           = ref_p1 (snd (ReferenceResonator_resonate ref x f bw))"
    and "res_p2 (snd (Resonator_resonate this x f bw))
           = ref_p2 (snd (ReferenceResonator_resonate ref x f bw))"
proof -
  obtain a b c where abc: "reference_coefficients (ref_sampleRate ref) (ref_anti ref) f bw = (a, b, c)"
    by (cases "reference_coefficients (ref_sampleRate ref) (ref_anti ref) f bw") auto
  from Resonator_setParams_coefficients [OF assms(1), of f bw] abc assms(2,3)
  have co: "res_a (Resonator_setParams this f bw) = a" "res_b (Resonator_setParams this f bw) = b"
    "res_c (Resonator_setParams this f bw) = c"
    by (simp_all add: Resonator_coefficients_reference)
  show "fst (Resonator_resonate this x f bw) = fst (ReferenceResonator_resonate ref x f bw)"
    using assms(4,5)
    by (simp add: Resonator_resonate_fields co ReferenceResonator_resonate_def abc Let_def)
  show "res_sampleRate (snd (Resonator_resonate this x f bw))
           = ref_sampleRate (snd (ReferenceResonator_resonate ref x f bw))"
    using assms(2)
    by (simp add: Resonator_resonate_fields ReferenceResonator_resonate_def abc Let_def)
  show "res_anti (snd (Resonator_resonate this x f bw))
           = ref_anti (snd (ReferenceResonator_resonate ref x f bw))"
    using assms(3)
    by (simp add: Resonator_resonate_fields ReferenceResonator_resonate_def abc Let_def)
  show "res_p1 (snd (Resonator_resonate this x f bw))
           = ref_p1 (snd (ReferenceResonator_resonate ref x f bw))"
    using assms(3,4,5)
    by (simp add: Resonator_resonate_fields co ReferenceResonator_resonate_def abc Let_def)
  show "res_p2 (snd (Resonator_resonate this x f bw))
           = ref_p2 (snd (ReferenceResonator_resonate ref x f bw))"
    using assms(4)
    by (simp add: Resonator_resonate_fields ReferenceResonator_resonate_def abc Let_def)
qed

lemma Resonator_outputs_simulation:
  assumes "Resonator_cached this"
    and "res_sampleRate this = ref_sampleRate ref" and "res_anti this = ref_anti ref"
    and "res_p1 this = ref_p1 ref" and "res_p2 this = ref_p2 ref"
  shows "Resonator_outputs this xs = ReferenceResonator_outputs ref xs"
  using assms
proof (induction xs arbitrary: this ref)
  case Nil
  show ?case by simp
next
  case (Cons x xs)
  obtain inp f bw where x: "x = (inp, f, bw)" by (cases x) auto
  have "Resonator_outputs (snd (Resonator_resonate this inp f bw)) xs
          = ReferenceResonator_outputs (snd (ReferenceResonator_resonate ref inp f bw)) xs"
    by (rule Cons.IH)
       (rule Resonator_resonate_cached [OF Cons.prems(1)]
             Resonator_resonate_simulation(2-5) [OF Cons.prems])+
  with Resonator_resonate_simulation(1) [OF Cons.prems, of inp f bw] show ?case
    by (simp add: x)
qed

lemma Resonator_call_cached:
  assumes "Resonator_cached this"
  shows "Resonator_cached (Resonator_call this x)"
  using assms by (cases x) (simp_all add: Resonator_setParams_cached Resonator_resonate_cached)

lemma Resonator_call_fields:
  "res_anti (Resonator_call this x) = res_anti this"
  "res_sampleRate (Resonator_call this x) = res_sampleRate this"
  by (cases x; simp add: Resonator_setParams_fields Resonator_resonate_fields)+

lemma Resonator_calls_cached:
  "Resonator_cached this \<Longrightarrow> Resonator_cached (Resonator_calls this xs)"
  by (induction xs arbitrary: this) (simp_all add: Resonator_call_cached)

lemma Resonator_calls_fields:
  "res_anti (Resonator_calls this xs) = res_anti this"
  "res_sampleRate (Resonator_calls this xs) = res_sampleRate this"
  by (induction xs arbitrary: this; simp add: Resonator_call_fields)+

lemma Resonator_coefficients_zero_frequency:
  "Resonator_coefficients sr anti 0 bw
     = (1 - 2 * exp (- pi / real_of_int sr * bw) * cos 0
          + exp (- pi / real_of_int sr * bw) * exp (- pi / real_of_int sr * bw),
        2 * exp (- pi / real_of_int sr * bw) * cos 0,
        - (exp (- pi / real_of_int sr * bw) * exp (- pi / real_of_int sr * bw)))"
  by (simp add: Resonator_coefficients_def Let_def)

text \<open>
  \<open>Resonator_inverts\<close> is the path condition of the division: where it holds, \<^verbatim>\<open>a\<close> is
  the quotient; where it fails, \<^verbatim>\<open>setParams\<close> does what it does for a plain resonator.
\<close>

lemma Resonator_setParams_inverts:
  "Resonator_inverts this f bw \<Longrightarrow>
     res_a (Resonator_setParams this f bw)
       = 1 / (1 - exp (- pi / real_of_int (res_sampleRate this) * bw)
                    * cos (PITWO / real_of_int (res_sampleRate this) * - f) * 2
                - - (exp (- pi / real_of_int (res_sampleRate this) * bw)
                     * exp (- pi / real_of_int (res_sampleRate this) * bw)))"
  "\<not> Resonator_inverts this f bw \<Longrightarrow>
     Resonator_setParams this f bw
       = (Resonator_setParams (this\<lparr>res_anti := False\<rparr>) f bw)\<lparr>res_anti := res_anti this\<rparr>"
  by (auto simp add: Resonator_inverts_def Resonator_setParams_def Let_def)

subsection \<open>The formant generators at weight 0\<close>

lemma linearFade_zero_weight: "linearFade dry wet 0 = dry"
  by (simp add: linearFade_def)

lemma CascadeFormantGenerator_zero_weights:
  assumes "\<And>dry wet. fade dry wet 0 = dry"
    and "ca1 frame = 0" "ca2 frame = 0" "ca3 frame = 0" "ca4 frame = 0" "ca5 frame = 0"
      "ca6 frame = 0" "caN0 frame = 0" "caNP frame = 0"
  shows "fst (CascadeFormantGenerator_getNext fade this frame glottis input) = input / 2"
  by (simp add: CascadeFormantGenerator_getNext_def Let_def split_beta assms)

lemma ParallelFormantGenerator_zero_weights:
  assumes "\<And>dry wet. fade dry wet 0 = dry"
    and "pa1 frame = 0" "pa2 frame = 0" "pa3 frame = 0" "pa4 frame = 0" "pa5 frame = 0"
      "pa6 frame = 0"
  shows "fst (ParallelFormantGenerator_getNext fade this frame input) = 7 * (input / 2)"
  by (simp add: ParallelFormantGenerator_getNext_def Let_def split_beta assms)

subsection \<open>The loop of generate\<close>

lemma generate_body_frame:
  assumes "getCurrentFrame fm = (Some frame, fm')"
  shows "generate_body getCurrentFrame fade i (fm, this, rs, sampleBuf) =
     (fm',
      this\<lparr>voiceGenerator := fst (snd (VoiceGenerator_getNext (voiceGenerator this) frame rs)),
           fricGenerator := fst (snd (NoiseGenerator_getNext (fricGenerator this)
              (snd (snd (VoiceGenerator_getNext (voiceGenerator this) frame rs))))),
           cascade := snd (CascadeFormantGenerator_getNext fade (cascade this) frame
              (glottisOpen (fst (snd (VoiceGenerator_getNext (voiceGenerator this) frame rs))))
              (fst (VoiceGenerator_getNext (voiceGenerator this) frame rs))),
           parallel := snd (ParallelFormantGenerator_getNext fade (parallel this) frame
              (fst (NoiseGenerator_getNext (fricGenerator this)
                 (snd (snd (VoiceGenerator_getNext (voiceGenerator this) frame rs))))
               * fricationAmplitude frame))\<rparr>,
      snd (snd (NoiseGenerator_getNext (fricGenerator this)
              (snd (snd (VoiceGenerator_getNext (voiceGenerator this) frame rs))))),
      sampleBuf(i := (sampleBuf i)\<lparr>sample_value := trunc (max (min
         ((fst (CascadeFormantGenerator_getNext fade (cascade this) frame
              (glottisOpen (fst (snd (VoiceGenerator_getNext (voiceGenerator this) frame rs))))
              (fst (VoiceGenerator_getNext (voiceGenerator this) frame rs)))
           + fst (ParallelFormantGenerator_getNext fade (parallel this) frame
              (fst (NoiseGenerator_getNext (fricGenerator this)
                 (snd (snd (VoiceGenerator_getNext (voiceGenerator this) frame rs))))
               * fricationAmplitude frame)))
          * gain frame * 4000) 32000) (- 32000))\<rparr>))"
  unfolding generate_body_def Let_def split_beta
  by (simp only: assms prod.sel option.case fst_conv snd_conv)

lemma generate_body_null_frame:
  assumes "fst (getCurrentFrame fm) = None"
  shows "generate_body getCurrentFrame fade i (fm, this, rs, sampleBuf)
           = (snd (getCurrentFrame fm), this, rs, sampleBuf(i := (sampleBuf i)\<lparr>sample_value := 0\<rparr>))"
  unfolding generate_body_def Let_def split_beta
  by (simp only: assms prod.sel option.case fst_conv snd_conv)


lemma generate_body_shape:
  "\<exists>this' rs' v. - 32000 \<le> v \<and> v \<le> 32000 \<and> (fst (gcf fm) = None \<longrightarrow> v = 0)
     \<and> (\<forall>i buf. generate_body gcf fade i (fm, this, rs, buf)
            = (snd (gcf fm), this', rs', buf(i := (buf i)\<lparr>sample_value := v\<rparr>)))"
proof (cases "fst (gcf fm)")
  case None
  show ?thesis
    by (rule exI [of _ this], rule exI [of _ rs], rule exI [of _ 0])
       (simp add: generate_body_null_frame [of gcf fm, OF None])
next
  case (Some frame)
  then have g: "gcf fm = (Some frame, snd (gcf fm))"
    by (cases "gcf fm") simp
  show ?thesis
    using trunc_clamp_range Some
    by (simp only: generate_body_frame [of gcf fm frame "snd (gcf fm)", OF g]) blast
qed

lemma generate_body_fm:
  "gs_fm (generate_body gcf fade i st) = snd (gcf (gs_fm st))"
proof (cases st)
  case (fields fm this rs buf)
  from generate_body_shape [of gcf fm fade this rs] show ?thesis
    by (auto simp add: fields)
qed

lemma generate_body_other:
  "j \<noteq> i \<Longrightarrow> gs_buf (generate_body gcf fade i st) j = gs_buf st j"
proof (cases st)
  case (fields fm this rs buf)
  assume "j \<noteq> i"
  with generate_body_shape [of gcf fm fade this rs] show ?thesis
    by (auto simp add: fields)
qed

lemma generate_body_range:
  "- 32000 \<le> sample_value (gs_buf (generate_body gcf fade i st) i)
   \<and> sample_value (gs_buf (generate_body gcf fade i st) i) \<le> 32000"
proof (cases st)
  case (fields fm this rs buf)
  from generate_body_shape [of gcf fm fade this rs] show ?thesis
    by (auto simp add: fields)
qed

lemma generate_body_null:
  "fst (gcf (gs_fm st)) = None \<Longrightarrow> sample_value (gs_buf (generate_body gcf fade i st) i) = 0"
proof (cases st)
  case (fields fm this rs buf)
  assume "fst (gcf (gs_fm st)) = None"
  then show ?thesis
    by (simp add: fields generate_body_null_frame)
qed

lemma generate_body_indep:
  assumes "gs_fm st1 = gs_fm st2" "gs_engine st1 = gs_engine st2" "gs_rand st1 = gs_rand st2"
  shows "gs_fm (generate_body gcf fade i st1) = gs_fm (generate_body gcf fade i st2)"
    and "gs_engine (generate_body gcf fade i st1) = gs_engine (generate_body gcf fade i st2)"
    and "gs_rand (generate_body gcf fade i st1) = gs_rand (generate_body gcf fade i st2)"
    and "sample_value (gs_buf (generate_body gcf fade i st1) i)
           = sample_value (gs_buf (generate_body gcf fade i st2) i)"
proof -
  obtain fm this rs buf1 where st1: "st1 = (fm, this, rs, buf1)"
    by (cases st1) auto
  with assms obtain buf2 where st2: "st2 = (fm, this, rs, buf2)"
    by (cases st2) auto
  from generate_body_shape [of gcf fm fade this rs]
  obtain this' rs' v where
    b: "\<And>i buf. generate_body gcf fade i (fm, this, rs, buf)
            = (snd (gcf fm), this', rs', buf(i := (buf i)\<lparr>sample_value := v\<rparr>))"
    by blast
  show "gs_fm (generate_body gcf fade i st1) = gs_fm (generate_body gcf fade i st2)"
    and "gs_engine (generate_body gcf fade i st1) = gs_engine (generate_body gcf fade i st2)"
    and "gs_rand (generate_body gcf fade i st1) = gs_rand (generate_body gcf fade i st2)"
    and "sample_value (gs_buf (generate_body gcf fade i st1) i)
           = sample_value (gs_buf (generate_body gcf fade i st2) i)"
    by (simp_all add: st1 st2 b)
qed

lemma generate_loop_other:
  "j < i \<or> i + k \<le> j \<Longrightarrow> gs_buf (generate_loop gcf fade k i st) j = gs_buf st j"
proof (induction k arbitrary: i st)
  case 0
  show ?case by simp
next
  case (Suc k)
  from Suc.prems have "j < Suc i \<or> Suc i + k \<le> j" and "j \<noteq> i" by auto
  then show ?case
    using Suc.IH [of "Suc i" "generate_body gcf fade i st"]
    by (simp add: generate_body_other)
qed

lemma generate_loop_range:
  "i \<le> j \<Longrightarrow> j < i + k \<Longrightarrow>
     - 32000 \<le> sample_value (gs_buf (generate_loop gcf fade k i st) j)
     \<and> sample_value (gs_buf (generate_loop gcf fade k i st) j) \<le> 32000"
proof (induction k arbitrary: i st)
  case 0
  then show ?case by simp
next
  case (Suc k)
  show ?case
  proof (cases "j = i")
    case True
    then show ?thesis
      using generate_loop_other [of j "Suc i" k gcf fade "generate_body gcf fade i st"]
        generate_body_range [of gcf fade i st]
      by simp
  next
    case False
    with Suc.prems have "Suc i \<le> j" "j < Suc i + k" by auto
    from Suc.IH [OF this] show ?thesis by simp
  qed
qed

lemma generate_loop_null:
  "i \<le> j \<Longrightarrow> j < i + k \<Longrightarrow> fst (gcf (frameManager_after gcf (gs_fm st) (j - i))) = None \<Longrightarrow>
     sample_value (gs_buf (generate_loop gcf fade k i st) j) = 0"
proof (induction k arbitrary: i st)
  case 0
  then show ?case by simp
next
  case (Suc k)
  show ?case
  proof (cases "j = i")
    case True
    with Suc.prems(3) have "fst (gcf (gs_fm st)) = None" by simp
    then show ?thesis
      using generate_loop_other [of j "Suc i" k gcf fade "generate_body gcf fade i st"] True
      by (simp add: generate_body_null)
  next
    case False
    with Suc.prems have le: "Suc i \<le> j" "j < Suc i + k" by auto
    then have "j - i = Suc (j - Suc i)" by simp
    with Suc.prems(3)
    have "fst (gcf (frameManager_after gcf (gs_fm (generate_body gcf fade i st)) (j - Suc i))) = None"
      by (simp add: generate_body_fm)
    from Suc.IH [OF le this] show ?thesis by simp
  qed
qed

lemma generate_loop_indep:
  assumes "gs_fm st1 = gs_fm st2" "gs_engine st1 = gs_engine st2" "gs_rand st1 = gs_rand st2"
  shows "gs_fm (generate_loop gcf fade k i st1) = gs_fm (generate_loop gcf fade k i st2)
       \<and> gs_engine (generate_loop gcf fade k i st1) = gs_engine (generate_loop gcf fade k i st2)
       \<and> gs_rand (generate_loop gcf fade k i st1) = gs_rand (generate_loop gcf fade k i st2)
       \<and> (i \<le> j \<and> j < i + k \<longrightarrow>
            sample_value (gs_buf (generate_loop gcf fade k i st1) j)
              = sample_value (gs_buf (generate_loop gcf fade k i st2) j))"
  using assms
proof (induction k arbitrary: i st1 st2)
  case 0
  then show ?case by simp
next
  case (Suc k)
  note b = generate_body_indep [OF Suc.prems, of gcf fade i]
  note ih = Suc.IH [OF b(1,2,3), of "Suc i"]
  show ?case
  proof (cases "j = i")
    case True
    then show ?thesis
      using ih b(4)
        generate_loop_other [of j "Suc i" k gcf fade "generate_body gcf fade i st1"]
        generate_loop_other [of j "Suc i" k gcf fade "generate_body gcf fade i st2"]
      by simp
  next
    case False
    then show ?thesis using ih by auto
  qed
qed

lemma generate_buffer:
  assumes "frameManager this = Some fm"
  shows "snd (snd (generate gcf fade this sampleCount sampleBuf rs))
           = gs_buf (generate_loop gcf fade (nat sampleCount) 0 (fm, this, rs, sampleBuf))"
  using assms by (simp add: generate_def split_beta)

text \<open>
  The loop runs pass after pass: \<open>a + b\<close> passes are \<open>a\<close> passes and then \<open>b\<close> more. So
  the sample that a whole run leaves in slot \<open>j\<close> is the one that pass \<open>j\<close> writes, from the
  state that the \<open>j\<close> passes before it have produced.
\<close>

lemma generate_loop_split:
  "generate_loop gcf fade (a + b) i st
     = generate_loop gcf fade b (i + a) (generate_loop gcf fade a i st)"
  by (induction a arbitrary: i st) simp_all

lemma generate_loop_written:
  assumes "j < n"
  shows "gs_buf (generate_loop gcf fade n 0 st) j
           = gs_buf (generate_body gcf fade j (generate_loop gcf fade j 0 st)) j"
proof -
  from assms have n: "n = j + Suc (n - Suc j)" by simp
  have "generate_loop gcf fade n 0 st
          = generate_loop gcf fade (Suc (n - Suc j)) j (generate_loop gcf fade j 0 st)"
    using generate_loop_split [of gcf fade j "Suc (n - Suc j)" 0 st] n by simp
  then show ?thesis
    using generate_loop_other [of j "Suc j" "n - Suc j" gcf fade
        "generate_body gcf fade j (generate_loop gcf fade j 0 st)"]
    by simp
qed

lemma generate_loop_Suc:
  "generate_loop gcf fade (Suc j) 0 st = generate_body gcf fade j (generate_loop gcf fade j 0 st)"
  using generate_loop_split [of gcf fade j "Suc 0" 0 st] by simp

lemma generate_body_null_state:
  assumes "fst (gcf (gs_fm st)) = None"
  shows "gs_engine (generate_body gcf fade i st) = gs_engine st"
    and "gs_rand (generate_body gcf fade i st) = gs_rand st"
proof -
  obtain fm this rs buf where st: "st = (fm, this, rs, buf)"
    by (cases st) auto
  with assms have n: "fst (gcf fm) = None" by simp
  show "gs_engine (generate_body gcf fade i st) = gs_engine st"
    and "gs_rand (generate_body gcf fade i st) = gs_rand st"
    by (simp_all add: st generate_body_null_frame [of gcf fm, OF n])
qed

lemma generate_body_advance:
  assumes "fst (gcf (gs_fm st)) = Some frame"
  shows "voiceGenerator (gs_engine (generate_body gcf fade i st))
           = fst (snd (VoiceGenerator_getNext (voiceGenerator (gs_engine st)) frame (gs_rand st)))"
    and "fricGenerator (gs_engine (generate_body gcf fade i st))
           = fst (snd (NoiseGenerator_getNext (fricGenerator (gs_engine st))
               (snd (snd (VoiceGenerator_getNext (voiceGenerator (gs_engine st)) frame
                  (gs_rand st))))))"
    and "cascade (gs_engine (generate_body gcf fade i st))
           = snd (CascadeFormantGenerator_getNext fade (cascade (gs_engine st)) frame
              (glottisOpen (fst (snd (VoiceGenerator_getNext (voiceGenerator (gs_engine st))
                 frame (gs_rand st)))))
              (fst (VoiceGenerator_getNext (voiceGenerator (gs_engine st)) frame (gs_rand st))))"
    and "parallel (gs_engine (generate_body gcf fade i st))
           = snd (ParallelFormantGenerator_getNext fade (parallel (gs_engine st)) frame
              (fst (NoiseGenerator_getNext (fricGenerator (gs_engine st))
                 (snd (snd (VoiceGenerator_getNext (voiceGenerator (gs_engine st))
                    frame (gs_rand st)))))
               * fricationAmplitude frame))"
    and "gs_rand (generate_body gcf fade i st)
           = snd (snd (NoiseGenerator_getNext (fricGenerator (gs_engine st))
               (snd (snd (VoiceGenerator_getNext (voiceGenerator (gs_engine st)) frame
                  (gs_rand st))))))"
proof -
  obtain fm this rs buf where st: "st = (fm, this, rs, buf)"
    by (cases st) auto
  with assms have g: "gcf fm = (Some frame, snd (gcf fm))"
    by (cases "gcf fm") simp
  note b = generate_body_frame [of gcf fm frame "snd (gcf fm)", OF g]
  show "voiceGenerator (gs_engine (generate_body gcf fade i st))
           = fst (snd (VoiceGenerator_getNext (voiceGenerator (gs_engine st)) frame (gs_rand st)))"
    by (simp add: st b)
  show "fricGenerator (gs_engine (generate_body gcf fade i st))
           = fst (snd (NoiseGenerator_getNext (fricGenerator (gs_engine st))
               (snd (snd (VoiceGenerator_getNext (voiceGenerator (gs_engine st)) frame
                  (gs_rand st))))))"
    by (simp add: st b)
  show "cascade (gs_engine (generate_body gcf fade i st))
           = snd (CascadeFormantGenerator_getNext fade (cascade (gs_engine st)) frame
              (glottisOpen (fst (snd (VoiceGenerator_getNext (voiceGenerator (gs_engine st))
                 frame (gs_rand st)))))
              (fst (VoiceGenerator_getNext (voiceGenerator (gs_engine st)) frame (gs_rand st))))"
    by (simp add: st b)
  show "parallel (gs_engine (generate_body gcf fade i st))
           = snd (ParallelFormantGenerator_getNext fade (parallel (gs_engine st)) frame
              (fst (NoiseGenerator_getNext (fricGenerator (gs_engine st))
                 (snd (snd (VoiceGenerator_getNext (voiceGenerator (gs_engine st))
                    frame (gs_rand st)))))
               * fricationAmplitude frame))"
    by (simp add: st b)
  show "gs_rand (generate_body gcf fade i st)
           = snd (snd (NoiseGenerator_getNext (fricGenerator (gs_engine st))
               (snd (snd (VoiceGenerator_getNext (voiceGenerator (gs_engine st)) frame
                  (gs_rand st))))))"
    by (simp add: st b)
qed

lemma generate_body_written:
  assumes "fst (gcf (gs_fm st)) = Some frame"
  shows "sample_value (gs_buf (generate_body gcf fade i st) i)
     = trunc (max (min
         ((fst (CascadeFormantGenerator_getNext fade (cascade (gs_engine st)) frame
              (glottisOpen (fst (snd (VoiceGenerator_getNext (voiceGenerator (gs_engine st))
                 frame (gs_rand st)))))
              (fst (VoiceGenerator_getNext (voiceGenerator (gs_engine st)) frame (gs_rand st))))
           + fst (ParallelFormantGenerator_getNext fade (parallel (gs_engine st)) frame
              (fst (NoiseGenerator_getNext (fricGenerator (gs_engine st))
                 (snd (snd (VoiceGenerator_getNext (voiceGenerator (gs_engine st))
                    frame (gs_rand st)))))
               * fricationAmplitude frame)))
          * gain frame * 4000) 32000) (- 32000))"
proof (cases st)
  case (fields fm this rs buf)
  with assms have g: "gcf fm = (Some frame, snd (gcf fm))"
    by (cases "gcf fm") simp
  show ?thesis
    by (simp add: fields generate_body_frame [of gcf fm frame "snd (gcf fm)", OF g])
qed

section \<open>The claims\<close>

text \<open>
  Claim C1, as amended. Once a frame manager has been set, \<^verbatim>\<open>generate(sampleCount, sampleBuf)\<close>
  writes exactly \<open>sampleCount\<close> samples, whatever the frame source returns: every slot from
  \<open>sampleCount\<close> on keeps what it held; every slot below \<open>sampleCount\<close> receives a value that
  does not depend on what the buffer held before; and the slot of a pass in which the
  frame source returns null receives 0. (With no frame manager the call returns at once
  and writes nothing, which is why the claim needs the condition.)
\<close>

theorem generate_writes_every_sample:
  assumes "frameManager this = Some fm"
  shows "(\<forall>j. nat sampleCount \<le> j \<longrightarrow>
            snd (snd (generate gcf fade this sampleCount sampleBuf rs)) j = sampleBuf j)
       \<and> (\<forall>j < nat sampleCount.
            sample_value (snd (snd (generate gcf fade this sampleCount sampleBuf rs)) j)
              = sample_value (snd (snd (generate gcf fade this sampleCount otherBuf rs)) j))
       \<and> (\<forall>j < nat sampleCount. fst (gcf (frameManager_after gcf fm j)) = None \<longrightarrow>
            sample_value (snd (snd (generate gcf fade this sampleCount sampleBuf rs)) j) = 0)"
proof (intro conjI allI impI)
  fix j assume "nat sampleCount \<le> j"
  then show "snd (snd (generate gcf fade this sampleCount sampleBuf rs)) j = sampleBuf j"
    using generate_loop_other [of j 0 "nat sampleCount" gcf fade "(fm, this, rs, sampleBuf)"]
    by (simp add: generate_buffer [OF assms])
next
  fix j assume "j < nat sampleCount"
  then show "sample_value (snd (snd (generate gcf fade this sampleCount sampleBuf rs)) j)
              = sample_value (snd (snd (generate gcf fade this sampleCount otherBuf rs)) j)"
    using generate_loop_indep [of "(fm, this, rs, sampleBuf)" "(fm, this, rs, otherBuf)"
        gcf fade "nat sampleCount" 0 j]
    by (simp add: generate_buffer [OF assms])
next
  fix j assume "j < nat sampleCount" "fst (gcf (frameManager_after gcf fm j)) = None"
  then show "sample_value (snd (snd (generate gcf fade this sampleCount sampleBuf rs)) j) = 0"
    using generate_loop_null [of 0 j "nat sampleCount" gcf "(fm, this, rs, sampleBuf)" fade]
    by (simp add: generate_buffer [OF assms])
qed

theorem generate_writes_every_sample_witness:
  "frameManager (setFrameManager (create 16000 blankEngine) (Some [Some steadyFrame, None]))
     = Some [Some steadyFrame, None]
   \<and> fst (queue_getCurrentFrame
        (frameManager_after queue_getCurrentFrame [Some steadyFrame, None] (Suc 0))) = None
   \<and> sample_value (snd (snd (generate queue_getCurrentFrame linearFade
        (setFrameManager (create 16000 blankEngine) (Some [Some steadyFrame, None]))
        2 staleBuffer rand_zero)) (Suc 0)) = 0
   \<and> snd (snd (generate queue_getCurrentFrame linearFade
        (setFrameManager (create 16000 blankEngine) (Some [Some steadyFrame, None]))
        2 staleBuffer rand_zero)) 2 = staleBuffer 2"
proof -
  have h: "frameManager (setFrameManager (create 16000 blankEngine)
             (Some [Some steadyFrame, None])) = Some [Some steadyFrame, None]"
    by (simp add: setFrameManager_def)
  have n: "fst (queue_getCurrentFrame
             (frameManager_after queue_getCurrentFrame [Some steadyFrame, None] (Suc 0))) = None"
    by (simp add: queue_getCurrentFrame_def)
  note t = generate_writes_every_sample [OF h, where sampleCount = 2
      and gcf = queue_getCurrentFrame and fade = linearFade and sampleBuf = staleBuffer
      and rs = rand_zero and otherBuf = staleBuffer]
  from t have "\<forall>j. nat 2 \<le> j \<longrightarrow>
      snd (snd (generate queue_getCurrentFrame linearFade
        (setFrameManager (create 16000 blankEngine) (Some [Some steadyFrame, None]))
        2 staleBuffer rand_zero)) j = staleBuffer j"
    by (rule conjunct1)
  then have a: "snd (snd (generate queue_getCurrentFrame linearFade
        (setFrameManager (create 16000 blankEngine) (Some [Some steadyFrame, None]))
        2 staleBuffer rand_zero)) 2 = staleBuffer 2"
    by simp
  from t have "\<forall>j < nat 2.
      fst (queue_getCurrentFrame
        (frameManager_after queue_getCurrentFrame [Some steadyFrame, None] j)) = None \<longrightarrow>
      sample_value (snd (snd (generate queue_getCurrentFrame linearFade
        (setFrameManager (create 16000 blankEngine) (Some [Some steadyFrame, None]))
        2 staleBuffer rand_zero)) j) = 0"
    by (rule conjunct2 [THEN conjunct2])
  then have "Suc 0 < nat 2 \<longrightarrow>
      fst (queue_getCurrentFrame
        (frameManager_after queue_getCurrentFrame [Some steadyFrame, None] (Suc 0))) = None \<longrightarrow>
      sample_value (snd (snd (generate queue_getCurrentFrame linearFade
        (setFrameManager (create 16000 blankEngine) (Some [Some steadyFrame, None]))
        2 staleBuffer rand_zero)) (Suc 0)) = 0"
    by (rule spec)
  with n have b: "sample_value (snd (snd (generate queue_getCurrentFrame linearFade
        (setFrameManager (create 16000 blankEngine) (Some [Some steadyFrame, None]))
        2 staleBuffer rand_zero)) (Suc 0)) = 0"
    by simp
  from h n a b show ?thesis by (intro conjI)
qed

text \<open>
  The claim as it is written fails on an engine whose frame manager was never set: asked
  for one sample, \<^verbatim>\<open>generate\<close> leaves slot 0 as it was, holding 5 in one buffer and 9 in
  another.
\<close>

theorem generate_unset_frameManager_writes_nothing:
  "sample_value (snd (snd (generate queue_getCurrentFrame linearFade
        (create 16000 blankEngine) 1 staleBuffer rand_zero)) 0) = 5
   \<and> sample_value (snd (snd (generate queue_getCurrentFrame linearFade
        (create 16000 blankEngine) 1 (staleBuffer(0 := \<lparr>sample_value = 9\<rparr>)) rand_zero)) 0) = 9"
  by (simp add: generate_def create_def new_SpeechWaveGeneratorImpl_def staleBuffer_def)

text \<open>
  Claim C2, as amended. Let the blend utility return its first (dry) argument at weight 0,
  and let every cascade weight (\<open>ca1..ca6\<close>, \<open>caN0\<close>, \<open>caNP\<close>) and every parallel weight
  (\<open>pa1..pa6\<close>) of the frame be 0. Then the cascade generator returns its dry input, the
  halved argument, unchanged; the parallel generator returns seven times its dry input,
  because each of its six blends returns the dry input and the six are added to it.
\<close>

theorem formant_generators_zero_weights:
  assumes "\<forall>dry wet. fade dry wet 0 = dry"
    and "ca1 frame = 0 \<and> ca2 frame = 0 \<and> ca3 frame = 0 \<and> ca4 frame = 0 \<and> ca5 frame = 0
         \<and> ca6 frame = 0 \<and> caN0 frame = 0 \<and> caNP frame = 0"
    and "pa1 frame = 0 \<and> pa2 frame = 0 \<and> pa3 frame = 0 \<and> pa4 frame = 0 \<and> pa5 frame = 0
         \<and> pa6 frame = 0"
  shows "fst (CascadeFormantGenerator_getNext fade cas frame glottis input) = input / 2
       \<and> fst (ParallelFormantGenerator_getNext fade par frame input') = 7 * (input' / 2)"
  using assms
  by (simp add: CascadeFormantGenerator_zero_weights ParallelFormantGenerator_zero_weights)

theorem formant_generators_zero_weights_witness:
  "(\<forall>dry wet. linearFade dry wet 0 = dry)
   \<and> ca1 steadyFrame = 0 \<and> caNP steadyFrame = 0 \<and> pa1 steadyFrame = 0 \<and> pa6 steadyFrame = 0
   \<and> fst (CascadeFormantGenerator_getNext linearFade
        (new_CascadeFormantGenerator 16000 blankCascade) steadyFrame False 2) = 1
   \<and> fst (ParallelFormantGenerator_getNext linearFade
        (new_ParallelFormantGenerator 16000 blankParallel) steadyFrame 2) = 7"
  using formant_generators_zero_weights [of linearFade steadyFrame
      "new_CascadeFormantGenerator 16000 blankCascade" False 2
      "new_ParallelFormantGenerator 16000 blankParallel" 2]
  by (simp add: linearFade_def steadyFrame_def)

text \<open>
  The claim as it is written fails for the parallel generator: with the linear blend, which
  returns the dry argument at weight 0, and the steady frame, whose weights are all 0, the
  argument 2 (dry input 1) comes back as 7.
\<close>

theorem ParallelFormantGenerator_zero_weights_not_passthrough:
  "fst (ParallelFormantGenerator_getNext linearFade
        (new_ParallelFormantGenerator 16000 blankParallel) steadyFrame 2) = 7
   \<and> \<not> (fst (ParallelFormantGenerator_getNext linearFade
        (new_ParallelFormantGenerator 16000 blankParallel) steadyFrame 2) = 2 / 2)
   \<and> \<not> (fst (ParallelFormantGenerator_getNext linearFade
        (new_ParallelFormantGenerator 16000 blankParallel) steadyFrame 2) = 2)"
  by (simp add: ParallelFormantGenerator_getNext_def Let_def split_beta linearFade_def
      steadyFrame_def)

text \<open>
  Claim C3, as amended. In exact real arithmetic, whatever the frames hold, every sample
  that \<^verbatim>\<open>generate\<close> writes lies in \<open>[-32000, 32000]\<close>. Take pass \<open>j\<close> of a call, with the
  engine, the random source and the frame manager as the passes before it have left them.
  If the frame source returns null the sample is 0. If it returns a frame, the number
  assigned is \<open>clamp((cascadeOut + parallelOut) * gain * 4000, -32000, 32000)\<close>, on or
  between the rails, and the integer sample written is that number with its fraction
  dropped (rounded toward zero): it differs from the clamp value by less than 1, and a
  value at or beyond a rail is stored as the rail itself. The pass leaves the generators
  and the random source as those calls returned them (untouched when the frame is null),
  and the frame manager as \<^verbatim>\<open>getCurrentFrame\<close> returned it, for the next pass.
\<close>

theorem generate_sample_clamped:
  assumes "frameManager this = Some fm"
  shows "\<forall>j < nat sampleCount.
          (let st = generate_loop gcf fade j 0 (fm, this, rs, sampleBuf);
               st' = generate_loop gcf fade (Suc j) 0 (fm, this, rs, sampleBuf);
               written = sample_value (snd (snd (generate gcf fade this sampleCount sampleBuf rs)) j)
           in - 32000 \<le> written \<and> written \<le> 32000
              \<and> gs_fm st' = snd (gcf (gs_fm st))
              \<and> (case fst (gcf (gs_fm st)) of
                    None \<Rightarrow>
                      written = 0 \<and> gs_engine st' = gs_engine st \<and> gs_rand st' = gs_rand st
                  | Some frame \<Rightarrow>
                     (let voice = VoiceGenerator_getNext (voiceGenerator (gs_engine st)) frame
                                    (gs_rand st);
                          cas = CascadeFormantGenerator_getNext fade
                                  (cascade (gs_engine st)) frame
                                  (glottisOpen (fst (snd voice))) (fst voice);
                          cascadeOut = fst cas;
                          noise = NoiseGenerator_getNext (fricGenerator (gs_engine st))
                                    (snd (snd voice));
                          par = ParallelFormantGenerator_getNext fade
                                  (parallel (gs_engine st)) frame
                                  (fst noise * fricationAmplitude frame);
                          parallelOut = fst par;
                          scaled = (cascadeOut + parallelOut) * gain frame * 4000;
                          clamped = max (min scaled 32000) (- 32000)
                      in written = trunc clamped \<and> - 32000 \<le> clamped \<and> clamped \<le> 32000
                         \<and> \<bar>real_of_int written - clamped\<bar> < 1
                         \<and> (32000 \<le> scaled \<longrightarrow> written = 32000)
                         \<and> (scaled \<le> - 32000 \<longrightarrow> written = - 32000)
                         \<and> voiceGenerator (gs_engine st') = fst (snd voice)
                         \<and> fricGenerator (gs_engine st') = fst (snd noise)
                         \<and> cascade (gs_engine st') = snd cas
                         \<and> parallel (gs_engine st') = snd par
                         \<and> gs_rand st' = snd (snd noise))))"
proof (intro allI impI)
  fix j assume j: "j < nat sampleCount"
  let ?st = "generate_loop gcf fade j 0 (fm, this, rs, sampleBuf)"
  let ?written = "sample_value (snd (snd (generate gcf fade this sampleCount sampleBuf rs)) j)"
  have w: "?written = sample_value (gs_buf (generate_body gcf fade j ?st) j)"
    using generate_loop_written [OF j, of gcf fade "(fm, this, rs, sampleBuf)"]
    by (simp add: generate_buffer [OF assms])
  have r: "- 32000 \<le> ?written \<and> ?written \<le> 32000"
    using generate_body_range [of gcf fade j ?st] by (simp only: w)
  show "let st = generate_loop gcf fade j 0 (fm, this, rs, sampleBuf);
               st' = generate_loop gcf fade (Suc j) 0 (fm, this, rs, sampleBuf);
               written = sample_value (snd (snd (generate gcf fade this sampleCount sampleBuf rs)) j)
           in - 32000 \<le> written \<and> written \<le> 32000
              \<and> gs_fm st' = snd (gcf (gs_fm st))
              \<and> (case fst (gcf (gs_fm st)) of
                    None \<Rightarrow>
                      written = 0 \<and> gs_engine st' = gs_engine st \<and> gs_rand st' = gs_rand st
                  | Some frame \<Rightarrow>
                     (let voice = VoiceGenerator_getNext (voiceGenerator (gs_engine st)) frame
                                    (gs_rand st);
                          cas = CascadeFormantGenerator_getNext fade
                                  (cascade (gs_engine st)) frame
                                  (glottisOpen (fst (snd voice))) (fst voice);
                          cascadeOut = fst cas;
                          noise = NoiseGenerator_getNext (fricGenerator (gs_engine st))
                                    (snd (snd voice));
                          par = ParallelFormantGenerator_getNext fade
                                  (parallel (gs_engine st)) frame
                                  (fst noise * fricationAmplitude frame);
                          parallelOut = fst par;
                          scaled = (cascadeOut + parallelOut) * gain frame * 4000;
                          clamped = max (min scaled 32000) (- 32000)
                      in written = trunc clamped \<and> - 32000 \<le> clamped \<and> clamped \<le> 32000
                         \<and> \<bar>real_of_int written - clamped\<bar> < 1
                         \<and> (32000 \<le> scaled \<longrightarrow> written = 32000)
                         \<and> (scaled \<le> - 32000 \<longrightarrow> written = - 32000)
                         \<and> voiceGenerator (gs_engine st') = fst (snd voice)
                         \<and> fricGenerator (gs_engine st') = fst (snd noise)
                         \<and> cascade (gs_engine st') = snd cas
                         \<and> parallel (gs_engine st') = snd par
                         \<and> gs_rand st' = snd (snd noise)))"
  proof (cases "fst (gcf (gs_fm ?st))")
    case None
    then have "?written = 0"
      using generate_body_null [of gcf ?st fade j] by (simp only: w)
    with None show ?thesis
      by (simp add: Let_def generate_loop_Suc generate_body_fm
          generate_body_null_state [where gcf = gcf and st = ?st and fade = fade and i = j,
            OF None]
          del: generate_loop.simps)
  next
    case (Some frame)
    note f = generate_body_written [where gcf = gcf and st = ?st and frame = frame
        and fade = fade and i = j, OF Some]
    note a = generate_body_advance [where gcf = gcf and st = ?st and frame = frame
        and fade = fade and i = j, OF Some]
    show ?thesis
      using r trunc_near
      by (simp add: Let_def Some w f trunc_clamp_rails trunc_rails generate_loop_Suc
          generate_body_fm a del: generate_loop.simps)
  qed
qed

theorem generate_sample_clamped_witness:
  "frameManager (setFrameManager (create 16000 blankEngine)
       (Some [None, Some (steadyFrame\<lparr>gain := 100\<rparr>)]))
     = Some [None, Some (steadyFrame\<lparr>gain := 100\<rparr>)]
   \<and> sample_value (snd (snd (generate queue_getCurrentFrame linearFade
        (setFrameManager (create 16000 blankEngine)
           (Some [None, Some (steadyFrame\<lparr>gain := 100\<rparr>)]))
        2 staleBuffer rand_zero)) 0) = 0
   \<and> sample_value (snd (snd (generate queue_getCurrentFrame linearFade
        (setFrameManager (create 16000 blankEngine)
           (Some [None, Some (steadyFrame\<lparr>gain := 100\<rparr>)]))
        2 staleBuffer rand_zero)) (Suc 0)) = - 32000"
proof -
  let ?F = "steadyFrame\<lparr>gain := 100\<rparr>"
  let ?E = "setFrameManager (create 16000 blankEngine) (Some [None, Some ?F])"
  have h: "frameManager ?E = Some [None, Some ?F]"
    by (simp add: setFrameManager_def)
  have q0: "fst (queue_getCurrentFrame [None, Some ?F]) = None"
    by (simp add: queue_getCurrentFrame_def)
  have q: "queue_getCurrentFrame [None, Some ?F] = (None, [Some ?F])"
    "queue_getCurrentFrame [Some ?F] = (Some ?F, [])"
    by (simp_all add: queue_getCurrentFrame_def)
  note b = generate_body_null_frame [of queue_getCurrentFrame "[None, Some ?F]", OF q0]
  have e: "voiceGenerator ?E = new_VoiceGenerator 16000" "fricGenerator ?E = new_NoiseGenerator"
    by (simp_all add: setFrameManager_def create_def new_SpeechWaveGeneratorImpl_def)
  have f: "fricationAmplitude steadyFrame = 0"
    by (simp add: steadyFrame_def)
  have v: "fst (VoiceGenerator_getNext (new_VoiceGenerator 16000) ?F rand_zero) = - 197 / 200"
    by (simp add: VoiceGenerator_getNext_def new_VoiceGenerator_def new_FrequencyGenerator_def
        new_NoiseGenerator_def FrequencyGenerator_getNext_def NoiseGenerator_getNext_def
        rand_def rand_zero_def steadyFrame_def PITWO_def fmod_one_small Let_def)
  have c: "fst (CascadeFormantGenerator_getNext linearFade cas ?F glottis x) = x / 2"
    for cas glottis x
    by (rule CascadeFormantGenerator_zero_weights)
       (simp_all add: linearFade_def steadyFrame_def)
  have p: "fst (ParallelFormantGenerator_getNext linearFade par ?F x) = 7 * (x / 2)"
    for par x
    by (rule ParallelFormantGenerator_zero_weights)
       (simp_all add: linearFade_def steadyFrame_def)
  note t = generate_sample_clamped [OF h, where sampleCount = 2
      and gcf = queue_getCurrentFrame and fade = linearFade and sampleBuf = staleBuffer
      and rs = rand_zero]
  from t [THEN spec, of 0]
  have w0: "sample_value (snd (snd (generate queue_getCurrentFrame linearFade
        ?E 2 staleBuffer rand_zero)) 0) = 0"
    by (simp add: Let_def q)
  from t [THEN spec, of "Suc 0"]
  have w1: "sample_value (snd (snd (generate queue_getCurrentFrame linearFade
        ?E 2 staleBuffer rand_zero)) (Suc 0)) = - 32000"
    by (simp add: Let_def b q e f v c p trunc_def)
  from h w0 w1 show ?thesis by (intro conjI)
qed

text \<open>
  The claim as it is written fails where the clamp value has a fraction. For the frame with
  pitch 0 and gain 7/8000 on a fresh engine, the voice is -1, the cascade output -1/2 and
  the parallel output 0, so the clamp value is -7/4; the sample written is -1.
\<close>

theorem generate_sample_drops_fraction:
  "fst (VoiceGenerator_getNext (new_VoiceGenerator 16000) fractionFrame rand_zero) = - 1
   \<and> max (min ((fst (CascadeFormantGenerator_getNext linearFade
                      (new_CascadeFormantGenerator 16000 blankCascade) fractionFrame False (- 1))
                + fst (ParallelFormantGenerator_getNext linearFade
                      (new_ParallelFormantGenerator 16000 blankParallel) fractionFrame 0))
               * gain fractionFrame * 4000) 32000) (- 32000) = - 7 / 4
   \<and> sample_value (snd (snd (generate queue_getCurrentFrame linearFade
        (setFrameManager (create 16000 blankEngine) (Some [Some fractionFrame]))
        1 staleBuffer rand_zero)) 0) = - 1
   \<and> \<not> (real_of_int (sample_value (snd (snd (generate queue_getCurrentFrame linearFade
        (setFrameManager (create 16000 blankEngine) (Some [Some fractionFrame]))
        1 staleBuffer rand_zero)) 0)) = - 7 / 4)"
proof -
  let ?E = "setFrameManager (create 16000 blankEngine) (Some [Some fractionFrame])"
  have h: "frameManager ?E = Some [Some fractionFrame]"
    by (simp add: setFrameManager_def)
  have q: "queue_getCurrentFrame [Some fractionFrame] = (Some fractionFrame, [])"
    by (simp add: queue_getCurrentFrame_def)
  have e: "voiceGenerator ?E = new_VoiceGenerator 16000" "fricGenerator ?E = new_NoiseGenerator"
    by (simp_all add: setFrameManager_def create_def new_SpeechWaveGeneratorImpl_def)
  have f: "fricationAmplitude fractionFrame = 0" "gain fractionFrame = 7 / 8000"
    by (simp_all add: fractionFrame_def steadyFrame_def)
  have v: "fst (VoiceGenerator_getNext (new_VoiceGenerator 16000) fractionFrame rand_zero) = - 1"
    by (simp add: VoiceGenerator_getNext_def new_VoiceGenerator_def new_FrequencyGenerator_def
        new_NoiseGenerator_def FrequencyGenerator_getNext_def NoiseGenerator_getNext_def
        rand_def rand_zero_def fractionFrame_def steadyFrame_def PITWO_def fmod_one_small Let_def)
  have c: "fst (CascadeFormantGenerator_getNext linearFade cas fractionFrame glottis x) = x / 2"
    for cas glottis x
    by (rule CascadeFormantGenerator_zero_weights)
       (simp_all add: linearFade_def fractionFrame_def steadyFrame_def)
  have p: "fst (ParallelFormantGenerator_getNext linearFade par fractionFrame x) = 7 * (x / 2)"
    for par x
    by (rule ParallelFormantGenerator_zero_weights)
       (simp_all add: linearFade_def fractionFrame_def steadyFrame_def)
  have k: "max (min ((fst (CascadeFormantGenerator_getNext linearFade
                      (new_CascadeFormantGenerator 16000 blankCascade) fractionFrame False (- 1))
                + fst (ParallelFormantGenerator_getNext linearFade
                      (new_ParallelFormantGenerator 16000 blankParallel) fractionFrame 0))
               * gain fractionFrame * 4000) 32000) (- 32000) = - 7 / 4"
    by (simp add: c p f)
  have t: "trunc (- 7 / 4) = - 1"
    by (simp add: trunc_def ceiling_def)
  have "snd (snd (generate queue_getCurrentFrame linearFade ?E 1 staleBuffer rand_zero))
          = gs_buf (generate_body queue_getCurrentFrame linearFade 0
              ([Some fractionFrame], ?E, rand_zero, staleBuffer))"
    by (simp add: generate_buffer [OF h])
  then have w: "sample_value (snd (snd (generate queue_getCurrentFrame linearFade ?E 1
          staleBuffer rand_zero)) 0) = - 1"
    using t
    by (simp add: generate_body_written [of queue_getCurrentFrame _ fractionFrame] q e f v c p)
  from v k w show ?thesis by simp
qed

text \<open>
  Claim C4. For every sequence of \<^verbatim>\<open>resonate(input, freq, bandwidth)\<close> calls on a freshly
  constructed resonator, of either mode and whatever its uninitialised fields hold, the
  outputs are those of the reference resonator of the spec, which derives the coefficients
  from \<open>freq\<close> and \<open>bandwidth\<close> on every call. The cache never changes an output.
\<close>

theorem Resonator_cache_transparent:
  "Resonator_outputs (new_Resonator sr anti mem) calls
     = ReferenceResonator_outputs (new_ReferenceResonator sr anti) calls"
  by (rule Resonator_outputs_simulation)
     (simp_all add: new_Resonator_cached, simp_all add: new_Resonator_def new_ReferenceResonator_def)

theorem Resonator_cache_transparent_witness:
  "Resonator_outputs (new_Resonator 16000 True blankResonator) [(1, 0, 0), (1, 0, 0), (1, 0, 0)]
     = [0, 2, 1]"
  using Resonator_cache_transparent [of 16000 True blankResonator "[(1, 0, 0), (1, 0, 0), (1, 0, 0)]"]
  by (simp add: new_ReferenceResonator_def ReferenceResonator_resonate_def
      reference_coefficients_def Let_def)

text \<open>
  Claim C5. One call of \<^verbatim>\<open>VoiceGenerator::getNext\<close> returns
  \<open>voice * voiceAmplitude + aspiration * aspirationAmplitude\<close>, where \<open>voicePhase\<close> is what the
  pitch generator returns for \<open>voicePitch * vibrato\<close>, \<open>aspiration\<close> what the noise generator
  returns, \<open>turbulence\<close> is \<open>aspiration * voiceTurbulenceAmplitude\<close>, multiplied by 0.1 exactly
  when the glottis is open, and \<open>voice = (voicePhase * 2 - 1) + turbulence\<close>. After the call
  the flag \<^verbatim>\<open>glottisOpen\<close> is \<open>voicePhase \<ge> glottalOpenQuotient\<close>.
\<close>

theorem VoiceGenerator_getNext_value:
  "(let vibrato = sin (fst (FrequencyGenerator_getNext (vibratoGen this) (vibratoSpeed frame))
                    * PITWO) * 0.06 * vibratoPitchOffset frame + 1;
        voicePhase = fst (FrequencyGenerator_getNext (pitchGen this) (voicePitch frame * vibrato));
        aspiration = fst (NoiseGenerator_getNext (aspirationGen this) rs);
        isOpen = (voicePhase \<ge> glottalOpenQuotient frame);
        turbulence = (if isOpen then aspiration * voiceTurbulenceAmplitude frame * 0.1
                      else aspiration * voiceTurbulenceAmplitude frame);
        voice = (voicePhase * 2 - 1) + turbulence;
        result = VoiceGenerator_getNext this frame rs
    in fst result = voice * voiceAmplitude frame + aspiration * aspirationAmplitude frame
       \<and> glottisOpen (fst (snd result)) = isOpen
       \<and> lastCyclePos (pitchGen (fst (snd result))) = voicePhase
       \<and> lastValue (aspirationGen (fst (snd result))) = aspiration)"
  by (simp add: VoiceGenerator_getNext_def Let_def split_beta FrequencyGenerator_getNext_def
      NoiseGenerator_getNext_def rand_def)

theorem VoiceGenerator_getNext_value_witness:
  "fst (VoiceGenerator_getNext (new_VoiceGenerator 16000)
        (steadyFrame\<lparr>voiceTurbulenceAmplitude := 1, glottalOpenQuotient := 0\<rparr>) rand_at_max)
     = - 177 / 200
   \<and> glottisOpen (fst (snd (VoiceGenerator_getNext (new_VoiceGenerator 16000)
        (steadyFrame\<lparr>voiceTurbulenceAmplitude := 1, glottalOpenQuotient := 0\<rparr>) rand_at_max)))"
  using VoiceGenerator_getNext_value [of "new_VoiceGenerator 16000"
      "steadyFrame\<lparr>voiceTurbulenceAmplitude := 1, glottalOpenQuotient := 0\<rparr>" rand_at_max]
  by (simp add: new_VoiceGenerator_def new_FrequencyGenerator_def new_NoiseGenerator_def
      FrequencyGenerator_getNext_def NoiseGenerator_getNext_def rand_def rand_at_max_def
      steadyFrame_def PITWO_def fmod_one_small Let_def)

text \<open>
  Claim C6, as amended. For a sample rate other than 0, each call of
  \<^verbatim>\<open>FrequencyGenerator::getNext(frequency)\<close> returns
  \<open>fmod(frequency / sampleRate + lastCyclePos, 1)\<close> and stores it as the new state; the
  value lies strictly between -1 and 1. When \<open>frequency / sampleRate + lastCyclePos\<close> is not
  negative the value is that sum reduced modulo 1 and lies in \<open>[0, 1)\<close>; that is the case
  whenever the sample rate is positive and neither the frequency nor the previous phase is
  negative. When the sum is negative, the value is not positive.
\<close>

theorem FrequencyGenerator_getNext_phase:
  assumes "fg_sampleRate this \<noteq> 0"
  shows "fst (FrequencyGenerator_getNext this frequency)
           = fmod (frequency / real_of_int (fg_sampleRate this) + lastCyclePos this) 1
       \<and> lastCyclePos (snd (FrequencyGenerator_getNext this frequency))
           = fst (FrequencyGenerator_getNext this frequency)
       \<and> - 1 < fst (FrequencyGenerator_getNext this frequency)
       \<and> fst (FrequencyGenerator_getNext this frequency) < 1
       \<and> (0 \<le> frequency / real_of_int (fg_sampleRate this) + lastCyclePos this \<longrightarrow>
            0 \<le> fst (FrequencyGenerator_getNext this frequency)
            \<and> fst (FrequencyGenerator_getNext this frequency)
                = frac (frequency / real_of_int (fg_sampleRate this) + lastCyclePos this))
       \<and> (frequency / real_of_int (fg_sampleRate this) + lastCyclePos this < 0 \<longrightarrow>
            fst (FrequencyGenerator_getNext this frequency) \<le> 0)
       \<and> (0 < fg_sampleRate this \<and> 0 \<le> frequency \<and> 0 \<le> lastCyclePos this \<longrightarrow>
            0 \<le> fst (FrequencyGenerator_getNext this frequency)
            \<and> fst (FrequencyGenerator_getNext this frequency) < 1
            \<and> fst (FrequencyGenerator_getNext this frequency)
                = frac (frequency / real_of_int (fg_sampleRate this) + lastCyclePos this))"
proof -
  have s: "0 \<le> frequency / real_of_int (fg_sampleRate this) + lastCyclePos this"
    if "0 < fg_sampleRate this" "0 \<le> frequency" "0 \<le> lastCyclePos this"
    using that by simp
  show ?thesis
    using fmod_one_bounds [of "frequency / real_of_int (fg_sampleRate this) + lastCyclePos this"] s
    by (auto simp add: FrequencyGenerator_getNext_def Let_def fmod_one_nonneg fmod_one_neg)
qed

theorem FrequencyGenerator_getNext_phase_witness:
  "fg_sampleRate \<lparr>fg_sampleRate = 16000, lastCyclePos = 3 / 4\<rparr> \<noteq> 0
   \<and> 0 \<le> 6000 / real_of_int (fg_sampleRate \<lparr>fg_sampleRate = 16000, lastCyclePos = 3 / 4\<rparr>)
           + lastCyclePos \<lparr>fg_sampleRate = 16000, lastCyclePos = 3 / 4\<rparr>
   \<and> 0 < fg_sampleRate \<lparr>fg_sampleRate = 16000, lastCyclePos = 3 / 4\<rparr>
   \<and> (0 :: real) \<le> 6000
   \<and> 0 \<le> lastCyclePos \<lparr>fg_sampleRate = 16000, lastCyclePos = 3 / 4\<rparr>
   \<and> fst (FrequencyGenerator_getNext \<lparr>fg_sampleRate = 16000, lastCyclePos = 3 / 4\<rparr> 6000) = 1 / 8
   \<and> lastCyclePos (snd (FrequencyGenerator_getNext
        \<lparr>fg_sampleRate = 16000, lastCyclePos = 3 / 4\<rparr> 6000)) = 1 / 8"
proof -
  have h: "fg_sampleRate \<lparr>fg_sampleRate = 16000, lastCyclePos = 3 / 4\<rparr> \<noteq> 0"
    by simp
  have f: "fmod (9 / 8) 1 = 1 / 8"
    using fmod_one_shift [of "1 / 8"] by (simp add: fmod_one_small)
  show ?thesis
    using FrequencyGenerator_getNext_phase [OF h, of 6000] f by simp
qed

text \<open>
  The claim as it is written fails for a negative frequency: \<^verbatim>\<open>fmod\<close> keeps the sign of its
  first argument. At 16000 Hz a fresh generator asked for -4000 Hz returns -1/4, and the
  voice path passes that frequency on for a frame whose pitch is -4000.
\<close>

theorem FrequencyGenerator_negative_phase:
  "\<not> (0 \<le> fst (FrequencyGenerator_getNext (new_FrequencyGenerator 16000) (- 4000)))
   \<and> lastCyclePos (pitchGen (fst (snd (VoiceGenerator_getNext (new_VoiceGenerator 16000)
         (steadyFrame\<lparr>voicePitch := - 4000\<rparr>) rand_zero)))) = - 1 / 4"
  by (simp add: FrequencyGenerator_getNext_def new_FrequencyGenerator_def fmod_one_small Let_def
      VoiceGenerator_getNext_def new_VoiceGenerator_def steadyFrame_def rand_zero_def
      NoiseGenerator_getNext_def new_NoiseGenerator_def rand_def PITWO_def)

text \<open>
  Claim C7, as amended. A noise generator starts from \<open>lastValue = 0\<close>. Every call of
  \<^verbatim>\<open>getNext\<close> draws one fresh number from \<^verbatim>\<open>rand()\<close>; with \<open>0 \<le> rand() \<le> RAND_MAX\<close> the
  value \<open>rand() / RAND_MAX\<close> lies in the closed interval \<open>[0, 1]\<close>; the call sets
  \<open>lastValue\<close> to that value plus 0.75 times the old \<open>lastValue\<close> and returns it.
\<close>

theorem NoiseGenerator_getNext_draw:
  assumes "rand_in_range rs"
  shows "0 \<le> real_of_int (fst (rand rs)) / real_of_int (RAND_MAX rs)
       \<and> real_of_int (fst (rand rs)) / real_of_int (RAND_MAX rs) \<le> 1
       \<and> fst (NoiseGenerator_getNext this rs)
           = real_of_int (fst (rand rs)) / real_of_int (RAND_MAX rs) + 0.75 * lastValue this
       \<and> lastValue (fst (snd (NoiseGenerator_getNext this rs)))
           = fst (NoiseGenerator_getNext this rs)
       \<and> snd (snd (NoiseGenerator_getNext this rs)) = snd (rand rs)
       \<and> drawn (snd (rand rs)) = Suc (drawn rs)
       \<and> lastValue new_NoiseGenerator = 0"
  using assms
  by (simp add: NoiseGenerator_getNext_def rand_def rand_in_range_def new_NoiseGenerator_def Let_def)

theorem NoiseGenerator_getNext_draw_witness:
  "rand_in_range rand_at_max
   \<and> real_of_int (fst (rand rand_at_max)) / real_of_int (RAND_MAX rand_at_max) \<le> 1
   \<and> fst (NoiseGenerator_getNext \<lparr>lastValue = 1\<rparr> rand_at_max) = 7 / 4"
proof -
  have h: "rand_in_range rand_at_max"
    by (simp add: rand_in_range_def rand_at_max_def)
  show ?thesis
    using h NoiseGenerator_getNext_draw [OF h, of "\<lparr>lastValue = 1\<rparr>"]
    by (simp add: rand_def rand_at_max_def)
qed

text \<open>
  The claim as it is written fails when \<^verbatim>\<open>rand()\<close> returns \<^verbatim>\<open>RAND_MAX\<close>, which the C
  standard allows: the value drawn is 1, outside \<open>[0, 1)\<close>.
\<close>

theorem NoiseGenerator_draw_reaches_one:
  "rand_in_range rand_at_max
   \<and> \<not> (real_of_int (fst (rand rand_at_max)) / real_of_int (RAND_MAX rand_at_max) < 1)
   \<and> fst (NoiseGenerator_getNext new_NoiseGenerator rand_at_max) = 1"
  by (simp add: rand_in_range_def rand_at_max_def rand_def NoiseGenerator_getNext_def
      new_NoiseGenerator_def)

text \<open>
  Claim C8. \<^verbatim>\<open>setParams\<close> with frequency 0 never reaches the inversion, so it divides
  nothing; the inversion, and with it the division, is reached only with a frequency other
  than 0. On an anti-resonance resonator, after any sequence of calls, \<^verbatim>\<open>setParams(0,
  bandwidth)\<close> leaves the plain resonance coefficients \<open>c = -r\<^sup>2\<close>, \<open>b = 2 r cos(0)\<close>,
  \<open>a = 1 - b - c\<close> with \<open>r = exp(-\<pi> / sampleRate * bandwidth)\<close>.
\<close>

theorem Resonator_anti_zero_frequency:
  "\<not> Resonator_inverts this 0 bandwidth
   \<and> (Resonator_inverts this frequency bandwidth \<longrightarrow> frequency \<noteq> 0)
   \<and> (let this' = Resonator_setParams (Resonator_calls (new_Resonator sr True mem) calls) 0 bandwidth;
           r = exp (- pi / real_of_int sr * bandwidth)
       in res_c this' = - (r * r) \<and> res_b this' = 2 * r * cos 0
          \<and> res_a this' = 1 - res_b this' - res_c this')"
proof -
  let ?s = "Resonator_calls (new_Resonator sr True mem) calls"
  have "Resonator_cached ?s"
    by (rule Resonator_calls_cached) (rule new_Resonator_cached)
  from Resonator_setParams_coefficients [OF this, of 0 bandwidth]
  have "(res_a (Resonator_setParams ?s 0 bandwidth), res_b (Resonator_setParams ?s 0 bandwidth),
         res_c (Resonator_setParams ?s 0 bandwidth))
          = Resonator_coefficients sr True 0 bandwidth"
    by (simp add: Resonator_calls_fields new_Resonator_def)
  then show ?thesis
    by (simp add: Resonator_coefficients_zero_frequency Resonator_inverts_def Let_def)
qed

theorem Resonator_anti_zero_frequency_witness:
  "Resonator_inverts (new_Resonator 16000 True blankResonator) 4000 0
   \<and> (4000 :: real) \<noteq> 0
   \<and> res_a (Resonator_setParams (Resonator_calls (new_Resonator 16000 True blankResonator)
        [SetParams 4000 0, Resonate 1 4000 0]) 0 0) = 0
   \<and> res_b (Resonator_setParams (Resonator_calls (new_Resonator 16000 True blankResonator)
        [SetParams 4000 0, Resonate 1 4000 0]) 0 0) = 2
   \<and> res_c (Resonator_setParams (Resonator_calls (new_Resonator 16000 True blankResonator)
        [SetParams 4000 0, Resonate 1 4000 0]) 0 0) = - 1"
  using Resonator_anti_zero_frequency [where this = "new_Resonator 16000 True blankResonator"
      and frequency = 4000 and bandwidth = 0 and sr = 16000 and mem = blankResonator
      and calls = "[SetParams 4000 0, Resonate 1 4000 0]"]
  by (simp add: Resonator_inverts_def new_Resonator_def blankResonator_def Let_def)

text \<open>
  Claim C9. While no frame manager has been set, \<^verbatim>\<open>generate\<close> returns at once for every
  count and buffer: the buffer, the engine and the random source are as before, so no
  sample is written, not even a zero. The same holds after \<^verbatim>\<open>setFrameManager(NULL)\<close>.
\<close>

theorem generate_without_frameManager:
  "generate getCurrentFrame fade (create sr mem) sampleCount sampleBuf rs
     = (create sr mem, rs, sampleBuf)
   \<and> frameManager (create sr mem) = None
   \<and> generate getCurrentFrame fade (setFrameManager this None) sampleCount sampleBuf rs
     = (setFrameManager this None, rs, sampleBuf)"
  by (simp add: generate_def create_def new_SpeechWaveGeneratorImpl_def setFrameManager_def)

theorem generate_without_frameManager_witness:
  "snd (snd (generate queue_getCurrentFrame linearFade (create 16000 blankEngine) 3
        staleBuffer rand_zero)) = staleBuffer"
proof -
  have "generate queue_getCurrentFrame linearFade (create 16000 blankEngine) 3
          staleBuffer rand_zero = (create 16000 blankEngine, rand_zero, staleBuffer)"
    by (rule generate_without_frameManager [THEN conjunct1])
  then show ?thesis by (simp only: snd_conv)
qed

text \<open>
  Claim C10. In a pass of the loop of \<^verbatim>\<open>generate\<close> in which the frame source returns
  null, the engine writes the sample 0 at the index of the pass and calls no generator:
  the voice generator, the frication noise generator, the cascade and the parallel
  generator, and with them every phase, noise value, resonator memory and cached
  coefficient, are exactly as before, and no random number is drawn.
\<close>

theorem generate_null_tick_freezes_generators:
  assumes "fst (getCurrentFrame fm) = None"
  shows "sample_value (gs_buf (generate_body getCurrentFrame fade i (fm, this, rs, sampleBuf)) i) = 0
       \<and> voiceGenerator (gs_engine (generate_body getCurrentFrame fade i (fm, this, rs, sampleBuf)))
           = voiceGenerator this
       \<and> fricGenerator (gs_engine (generate_body getCurrentFrame fade i (fm, this, rs, sampleBuf)))
           = fricGenerator this
       \<and> cascade (gs_engine (generate_body getCurrentFrame fade i (fm, this, rs, sampleBuf)))
           = cascade this
       \<and> parallel (gs_engine (generate_body getCurrentFrame fade i (fm, this, rs, sampleBuf)))
           = parallel this
       \<and> gs_engine (generate_body getCurrentFrame fade i (fm, this, rs, sampleBuf)) = this
       \<and> gs_rand (generate_body getCurrentFrame fade i (fm, this, rs, sampleBuf)) = rs"
  by (simp add: generate_body_null_frame [of getCurrentFrame fm, OF assms])

theorem generate_null_tick_freezes_generators_witness:
  "fst (queue_getCurrentFrame [None, Some steadyFrame]) = None
   \<and> sample_value (gs_buf (generate_body queue_getCurrentFrame linearFade 3
        ([None, Some steadyFrame],
         setFrameManager (create 16000 blankEngine) (Some [None, Some steadyFrame]),
         rand_at_max, staleBuffer)) 3) = 0
   \<and> gs_engine (generate_body queue_getCurrentFrame linearFade 3
        ([None, Some steadyFrame],
         setFrameManager (create 16000 blankEngine) (Some [None, Some steadyFrame]),
         rand_at_max, staleBuffer))
       = setFrameManager (create 16000 blankEngine) (Some [None, Some steadyFrame])
   \<and> gs_rand (generate_body queue_getCurrentFrame linearFade 3
        ([None, Some steadyFrame],
         setFrameManager (create 16000 blankEngine) (Some [None, Some steadyFrame]),
         rand_at_max, staleBuffer)) = rand_at_max"
proof -
  have h: "fst (queue_getCurrentFrame [None, Some steadyFrame]) = None"
    by (simp add: queue_getCurrentFrame_def)
  show ?thesis
    using h generate_null_tick_freezes_generators [where getCurrentFrame = queue_getCurrentFrame
        and fm = "[None, Some steadyFrame]" and fade = linearFade and i = 3
        and this = "setFrameManager (create 16000 blankEngine) (Some [None, Some steadyFrame])"
        and rs = rand_at_max and sampleBuf = staleBuffer, OF h]
    by simp
qed

end
